theory Spec2Isabelle
  imports Main
begin

section \<open>Shared model of the Go runtime\<close>

text \<open>
  Both programs of the repository (the proxy under \<open>microservices/proxy\<close> and the events
  service that follows it in the same source file) read their configuration with
  \<open>getEnv\<close>, write to the process log with \<open>log.Printf\<close> and answer HTTP requests.
  A log line is kept as the format string and its arguments, as the call is written in the
  source; an error value is kept by its kind.
\<close>

type_synonym bytes = string

type_synonym env = "string \<rightharpoonup> string"

datatype error =
    ErrSyntax string  \<comment> \<open>\<open>*strconv.NumError\<close> with \<open>Err = ErrSyntax\<close>, on the string given\<close>
  | ErrRange string   \<comment> \<open>\<open>*strconv.NumError\<close> with \<open>Err = ErrRange\<close>\<close>
  | errorString string  \<comment> \<open>any other error, by its message\<close>

datatype arg = Str string | Num int | Flag bool | Err error

datatype log_entry = Printf string "arg list" | Fatalf string "arg list"

text \<open>
  A request by what the two programs read of it: the method, the path \<open>r.URL.Path\<close>
  of the request target (the target addresses a path; the form \<open>*\<close> of an
  \<open>OPTIONS\<close> request is left out), and the body.
\<close>

record request =
  Method :: string
  Path :: string
  Body :: bytes

text \<open>
  A response as the handler writes it: the status code, the entries that the handler, or
  \<open>http.Error\<close> on its behalf, sets in \<open>w.Header()\<close>, and the bytes of the body.
  What the server adds when it sends the response (the date, the length, a content type
  it detects) is not part of it.
\<close>

record response =
  StatusCode :: nat
  Header :: "(string \<times> string) list"
  Payload :: bytes

text \<open>
  \<open>http.Error(w, msg, code)\<close> sets the content type to plain text and forbids content
  sniffing, then writes the code and the message followed by a newline.
\<close>

definition http_Error :: "string \<Rightarrow> nat \<Rightarrow> response" where
  "http_Error msg code =
     \<lparr>StatusCode = code,
      Header = [(''Content-Type'', ''text/plain; charset=utf-8''),
                (''X-Content-Type-Options'', ''nosniff'')],
      Payload = msg @ [CHR 0x0A]\<rparr>"

definition getEnv :: "env \<Rightarrow> string \<Rightarrow> string \<Rightarrow> string" where
  "getEnv e key fallback = (case e key of Some v \<Rightarrow> v | None \<Rightarrow> fallback)"

text \<open>\<open>strings.HasPrefix\<close>: \<open>len(s) >= len(prefix) && s[:len(prefix)] == prefix\<close>.\<close>

definition HasPrefix :: "string \<Rightarrow> string \<Rightarrow> bool" where
  "HasPrefix s pre = (length pre \<le> length s \<and> take (length pre) s = pre)"

subsection \<open>The path cleaning of \<open>http.ServeMux\<close>\<close>

text \<open>
  Both programs register their handlers with the default multiplexer. Before it looks for
  a pattern, the multiplexer brings the path of the request to its canonical form with
  \<open>cleanPath\<close>: the path is made to begin with a slash and is passed through
  \<open>path.Clean\<close>, which drops empty elements (repeated slashes) and \<open>.\<close> elements and
  resolves every \<open>..\<close> element against the element before it (at the root it is
  dropped); a trailing slash is kept. A request whose path differs from its canonical
  form is not handed to any handler: the multiplexer answers it with a redirect to the
  canonical path, with status 301. A request with the method \<open>CONNECT\<close> is dispatched
  with its path as it is.
\<close>

text \<open>
  The elements of a path are the pieces between its slashes; \<open>elements e p\<close> splits
  \<open>p\<close> with \<open>e\<close> the piece read so far.
\<close>

fun elements :: "string \<Rightarrow> string \<Rightarrow> string list" where
  "elements e [] = [e]"
| "elements e (c # cs) =
     (if c = CHR ''/'' then e # elements [] cs else elements (e @ [c]) cs)"

fun cleanElements :: "string list \<Rightarrow> string list \<Rightarrow> string list" where
  "cleanElements [] out = out"
| "cleanElements (e # es) out =
     (if e = [] \<or> e = ''.'' then cleanElements es out
      else if e = ''..'' then cleanElements es (butlast out)
      else cleanElements es (out @ [e]))"

fun joinPath :: "string list \<Rightarrow> string" where
  "joinPath [] = []"
| "joinPath [e] = e"
| "joinPath (e # es) = e @ CHR ''/'' # joinPath es"

text \<open>\<open>path.Clean\<close> on a rooted path, the only kind \<open>cleanPath\<close> gives it.\<close>

definition Clean :: "string \<Rightarrow> string" where
  "Clean p = CHR ''/'' # joinPath (cleanElements (elements [] p) [])"

definition cleanPath :: "string \<Rightarrow> string" where
  "cleanPath p =
     (if p = [] then ''/''
      else let p' = (if hd p \<noteq> CHR ''/'' then CHR ''/'' # p else p);
               np = Clean p'
           in if last p' = CHR ''/'' \<and> np \<noteq> ''/'' then np @ ''/'' else np)"

text \<open>The requests that the multiplexer hands to a handler.\<close>

definition dispatched :: "request \<Rightarrow> bool" where
  "dispatched r \<longleftrightarrow> Method r = ''CONNECT'' \<or> cleanPath (Path r) = Path r"

section \<open>The gateway: \<open>microservices/proxy/main.go\<close>\<close>

subsection \<open>\<open>strconv.Atoi\<close> on a 64-bit platform\<close>

text \<open>
  \<open>Atoi\<close> is \<open>ParseInt(s, 10, 0)\<close>: an optional sign, then one or more decimal digits,
  which \<open>ParseUint\<close> accumulates from the left in an unsigned 64-bit number. A byte that
  is no digit is a syntax error, a value that leaves the range is a range error, whichever
  the scan meets first; the error names the whole string \<open>s0\<close>.
\<close>

definition isDigit :: "char \<Rightarrow> bool" where
  "isDigit c = (48 \<le> (of_char c :: nat) \<and> (of_char c :: nat) \<le> 57)"

definition digit :: "char \<Rightarrow> int" where
  "digit c = int (of_char c) - 48"

definition maxUint64 :: int where
  "maxUint64 = 2 ^ 64 - 1"

fun ParseUint :: "string \<Rightarrow> string \<Rightarrow> int \<Rightarrow> error + int" where
  "ParseUint s0 [] n = Inr n"
| "ParseUint s0 (c # cs) n =
     (if \<not> isDigit c then Inl (ErrSyntax s0)
      else if n \<ge> maxUint64 div 10 + 1 then Inl (ErrRange s0)
      else if n * 10 + digit c > maxUint64 then Inl (ErrRange s0)
      else ParseUint s0 cs (n * 10 + digit c))"

definition Atoi :: "string \<Rightarrow> error + int" where
  "Atoi s =
     (if s = [] then Inl (ErrSyntax s)
      else
        let neg = (hd s = CHR ''-'');
            ds = (if hd s = CHR ''+'' \<or> hd s = CHR ''-'' then tl s else s)
        in if ds = [] then Inl (ErrSyntax s)
           else (case ParseUint s ds 0 of
                   Inl err \<Rightarrow> Inl err
                 | Inr un \<Rightarrow>
                     if \<not> neg \<and> un \<ge> 2 ^ 63 then Inl (ErrRange s)
                     else if neg \<and> un > 2 ^ 63 then Inl (ErrRange s)
                     else Inr (if neg then - un else un)))"

subsection \<open>\<open>math/rand\<close>\<close>

text \<open>
  The process-wide generator is a state: the sequence of the raw values it is going to
  produce. \<open>rand.Intn(n)\<close> takes the next one, reduces it to the half-open interval
  \<open>[0, n)\<close> that the library documents, and advances the generator. (It panics for
  \<open>n \<le> 0\<close>; the gateway only calls it with 100.)
\<close>

type_synonym rng = "nat \<Rightarrow> int"

definition Intn :: "int \<Rightarrow> rng \<Rightarrow> int \<times> rng" where
  "Intn n g = (g 0 mod n, (\<lambda>i. g (Suc i)))"

subsection \<open>Start-up: the configuration read by \<open>main\<close>\<close>

record 'u config =
  port :: string
  monolithURL :: string
  moviesServiceURL :: string
  eventsServiceURL :: string
  gradualMigrationEnabled :: bool
  migrationPercent :: int
  monoURL :: 'u
  movURL :: 'u
  evtURL :: 'u

datatype 'a startup = Fatal | Ready 'a

text \<open>
  \<open>main\<close> up to the call of \<open>http.ListenAndServe\<close>. \<open>url.Parse\<close> is the library's and
  is a parameter; \<open>log.Fatalf\<close> writes its line and ends the process.
\<close>

definition parsePercent :: "string \<Rightarrow> log_entry list \<times> int" where
  "parsePercent migrationPercentStr =
     (case Atoi migrationPercentStr of
        Inl err \<Rightarrow>
          ([Printf ''Invalid MOVIES_MIGRATION_PERCENT value, defaulting to 0. Error: %v'' [Err err]], 0)
      | Inr n \<Rightarrow> ([], n))"

definition main_setup :: "(string \<Rightarrow> error + 'u) \<Rightarrow> env \<Rightarrow> log_entry list \<times> 'u config startup" where
  "main_setup Parse e =
     (let port' = getEnv e ''PORT'' ''8000'';
          monolithURL' = getEnv e ''MONOLITH_URL'' ''http://localhost:8080'';
          moviesServiceURL' = getEnv e ''MOVIES_SERVICE_URL'' ''http://localhost:8081'';
          eventsServiceURL' = getEnv e ''EVENTS_SERVICE_URL'' ''http://localhost:8082'';
          gradualMigrationEnabled' = (getEnv e ''GRADUAL_MIGRATION'' ''false'' = ''true'');
          migrationPercentStr = getEnv e ''MOVIES_MIGRATION_PERCENT'' ''0'';
          (l, migrationPercent') = parsePercent migrationPercentStr
      in case Parse monolithURL' of
           Inl err \<Rightarrow> (l @ [Fatalf ''Failed to parse MONOLITH_URL: %v'' [Err err]], Fatal)
         | Inr monoURL' \<Rightarrow>
       (case Parse moviesServiceURL' of
           Inl err \<Rightarrow> (l @ [Fatalf ''Failed to parse MOVIES_SERVICE_URL: %v'' [Err err]], Fatal)
         | Inr movURL' \<Rightarrow>
       (case Parse eventsServiceURL' of
           Inl err \<Rightarrow> (l @ [Fatalf ''Failed to parse EVENTS_SERVICE_URL: %v'' [Err err]], Fatal)
         | Inr evtURL' \<Rightarrow>
           (l @ [Printf ''Strangler Fig Proxy started on port %s'' [Str port'],
                 Printf ''Monolith URL: %s'' [Str monolithURL'],
                 Printf ''Movies Service URL: %s'' [Str moviesServiceURL'],
                 Printf ''Gradual migration enabled: %v'' [Flag gradualMigrationEnabled'],
                 Printf ''Movies migration percentage: %d%%'' [Num migrationPercent']],
            Ready \<lparr>port = port', monolithURL = monolithURL',
                   moviesServiceURL = moviesServiceURL', eventsServiceURL = eventsServiceURL',
                   gradualMigrationEnabled = gradualMigrationEnabled',
                   migrationPercent = migrationPercent',
                   monoURL = monoURL', movURL = movURL', evtURL = evtURL'\<rparr>))))"

subsection \<open>The two registered handlers and the multiplexer\<close>

text \<open>
  \<open>main\<close> builds one reverse proxy for each of the three upstream URLs. A reverse proxy
  forwards the request it serves to the URL it was built with; in the model, serving a
  request with a proxy is the reply \<open>Proxied\<close>, which names the proxy and carries that
  URL. The other replies are a response the gateway writes itself, and the redirect of
  the multiplexer (status 301) to a cleaned path.
\<close>

datatype origin = Monolith | MoviesService | EventsService

datatype 'u reply = Proxied origin 'u | Replied response | Redirected string

definition monolithProxy :: "'u config \<Rightarrow> 'u reply" where
  "monolithProxy cfg = Proxied Monolith (monoURL cfg)"

definition moviesProxy :: "'u config \<Rightarrow> 'u reply" where
  "moviesProxy cfg = Proxied MoviesService (movURL cfg)"

definition eventsProxy :: "'u config \<Rightarrow> 'u reply" where
  "eventsProxy cfg = Proxied EventsService (evtURL cfg)"

text \<open>
  The condition \<open>gradualMigrationEnabled && rand.Intn(100) < migrationPercent\<close>: the
  generator is only asked when migration is enabled.
\<close>

definition migrate :: "'u config \<Rightarrow> rng \<Rightarrow> bool \<times> rng" where
  "migrate cfg g =
     (if gradualMigrationEnabled cfg
      then (let (n, g') = Intn 100 g in (n < migrationPercent cfg, g'))
      else (False, g))"

text \<open>The handler registered for the pattern \<open>/\<close>.\<close>

definition handler :: "'u config \<Rightarrow> request \<Rightarrow> rng \<Rightarrow> 'u reply \<times> log_entry list \<times> rng" where
  "handler cfg r g =
     (let incoming = Printf ''Incoming request: %s %s'' [Str (Method r), Str (Path r)]
      in if HasPrefix (Path r) ''/api/movies'' then
           (let (b, g') = migrate cfg g
            in if b then (moviesProxy cfg,
                          [incoming, Printf ''Routing to movies-service (migration)'' []], g')
               else (monolithProxy cfg, [incoming, Printf ''Routing to monolith'' []], g'))
         else if HasPrefix (Path r) ''/api/events'' then
           (eventsProxy cfg, [incoming, Printf ''Routing to events-service'' []], g)
         else (monolithProxy cfg, [incoming, Printf ''Routing to monolith (default)'' []], g))"

text \<open>The handler registered for the pattern \<open>/health\<close>.\<close>

definition health :: response where
  "health = \<lparr>StatusCode = 200, Header = [], Payload = ''Strangler Fig Proxy is healthy''\<rparr>"

text \<open>
  The default multiplexer with these two patterns. A request that it does not hand to a
  handler it answers with a redirect. Among the requests it dispatches, \<open>/health\<close>
  matches that path alone and \<open>/\<close> matches every other path that begins with a slash;
  a path that matches no pattern (only a \<open>CONNECT\<close> request can have one) is answered
  with \<open>http.NotFound\<close>.
\<close>

definition gateway :: "'u config \<Rightarrow> request \<Rightarrow> rng \<Rightarrow> 'u reply \<times> log_entry list \<times> rng" where
  "gateway cfg r g =
     (if \<not> dispatched r then (Redirected (cleanPath (Path r)), [], g)
      else if Path r = ''/health'' then (Replied health, [], g)
      else if HasPrefix (Path r) ''/'' then handler cfg r g
      else (Replied (http_Error ''404 page not found'' 404), [], g))"

section \<open>The events service\<close>

subsection \<open>Event structures\<close>

text \<open>
  The fields of the three event structures. Go's \<open>int\<close> is kept as a mathematical
  integer: the service never computes with a field. \<open>time.Time\<close> and \<open>float64\<close>
  are the library's and stay opaque.
\<close>

typedecl Time

typedecl float64

record MovieEvent =
  MovieID :: int
  Title :: string
  Action :: string
  UserID :: int

record UserEvent =
  user_UserID :: int
  user_Username :: string
  user_Action :: string
  user_Timestamp :: Time

record PaymentEvent =
  payment_PaymentID :: int
  payment_UserID :: int
  payment_Amount :: float64
  payment_Status :: string
  payment_Timestamp :: Time

text \<open>
  \<open>eventData\<close> has the type \<open>interface{}\<close>: it holds a pointer to one of the three
  structures, chosen by the topic.
\<close>

datatype eventData = Movie MovieEvent | User UserEvent | Payment PaymentEvent

datatype kind = MovieKind | UserKind | PaymentKind

subsection \<open>Decoding with \<open>encoding/json\<close>\<close>

text \<open>
  \<open>json.NewDecoder(r.Body).Decode(eventData)\<close> reads the next JSON value of the body and
  stores it in the structure. Reading is the library's and is a parameter: \<open>ReadValue\<close>
  gives the value read, with its strings unquoted and its numbers as their literal text,
  or the error of an empty or malformed body.
\<close>

datatype jvalue =
    JNull
  | JBool bool
  | JNumber string
  | JString string
  | JArray "jvalue list"
  | JObject "(string \<times> jvalue) list"

text \<open>
  Storing follows the rules the library documents. An object sets the fields whose names
  match its keys, an exact match before a case-insensitive one, in the order of the keys;
  a key that matches no field is ignored, and a field that no key names keeps its value.
  \<open>null\<close> has no effect. A value that does not suit its field, or a value for the
  structure that is neither an object nor \<open>null\<close>, is skipped and reported as an
  \<open>UnmarshalTypeError\<close>, the earliest one when there are several. The case-insensitive
  comparison \<open>EqualFold\<close> is the library's and is a parameter.
\<close>

fun describe :: "jvalue \<Rightarrow> string" where
  "describe JNull = ''null''"
| "describe (JBool b) = ''bool''"
| "describe (JNumber s) = ''number''"
| "describe (JString s) = ''string''"
| "describe (JArray vs) = ''array''"
| "describe (JObject kvs) = ''object''"

definition typeError :: "string \<Rightarrow> string \<Rightarrow> string \<Rightarrow> string" where
  "typeError val field typ =
     ''json: cannot unmarshal '' @ val @ '' into Go struct field MovieEvent.'' @ field
       @ '' of type '' @ typ"

text \<open>A number is stored in an \<open>int\<close> field when \<open>strconv.ParseInt\<close> accepts its text.\<close>

fun storeInt :: "string \<Rightarrow> jvalue \<Rightarrow> string + int option" where
  "storeInt field JNull = Inr None"
| "storeInt field (JNumber s) =
     (case Atoi s of
        Inr n \<Rightarrow> Inr (Some n)
      | Inl err \<Rightarrow> Inl (typeError (''number '' @ s) field ''int''))"
| "storeInt field v = Inl (typeError (describe v) field ''int'')"

fun storeString :: "string \<Rightarrow> jvalue \<Rightarrow> string + string option" where
  "storeString field JNull = Inr None"
| "storeString field (JString s) = Inr (Some s)"
| "storeString field v = Inl (typeError (describe v) field ''string'')"

text \<open>The names in the \<open>json\<close> tags of \<open>MovieEvent\<close>.\<close>

definition movieFields :: "string list" where
  "movieFields = [''movie_id'', ''title'', ''action'', ''user_id'']"

definition findField :: "(string \<Rightarrow> string \<Rightarrow> bool) \<Rightarrow> string list \<Rightarrow> string \<Rightarrow> string option" where
  "findField eqf names key =
     (if key \<in> set names then Some key else find (\<lambda>name. eqf name key) names)"

definition setMovieField :: "MovieEvent \<Rightarrow> string \<Rightarrow> jvalue \<Rightarrow> string + MovieEvent" where
  "setMovieField ev field v =
     (if field = ''movie_id'' then
        map_sum id (\<lambda>x. case x of None \<Rightarrow> ev | Some n \<Rightarrow> ev\<lparr>MovieID := n\<rparr>) (storeInt field v)
      else if field = ''title'' then
        map_sum id (\<lambda>x. case x of None \<Rightarrow> ev | Some t \<Rightarrow> ev\<lparr>Title := t\<rparr>) (storeString field v)
      else if field = ''action'' then
        map_sum id (\<lambda>x. case x of None \<Rightarrow> ev | Some t \<Rightarrow> ev\<lparr>Action := t\<rparr>) (storeString field v)
      else
        map_sum id (\<lambda>x. case x of None \<Rightarrow> ev | Some n \<Rightarrow> ev\<lparr>UserID := n\<rparr>) (storeInt field v))"

text \<open>
  The keys of an object in turn, on the structure so far and the error saved so far.
\<close>

fun movieObject ::
  "(string \<Rightarrow> string \<Rightarrow> bool) \<Rightarrow> (string \<times> jvalue) list \<Rightarrow> MovieEvent \<times> string option
     \<Rightarrow> MovieEvent \<times> string option" where
  "movieObject eqf [] acc = acc"
| "movieObject eqf ((key, v) # kvs) (ev, saved) =
     (case findField eqf movieFields key of
        None \<Rightarrow> movieObject eqf kvs (ev, saved)
      | Some field \<Rightarrow>
          (case setMovieField ev field v of
             Inl err \<Rightarrow> movieObject eqf kvs (ev, if saved = None then Some err else saved)
           | Inr ev' \<Rightarrow> movieObject eqf kvs (ev', saved)))"

text \<open>\<open>&MovieEvent{}\<close>: every field at its zero value.\<close>

definition zeroMovie :: MovieEvent where
  "zeroMovie = \<lparr>MovieID = 0, Title = [], Action = [], UserID = 0\<rparr>"

fun unmarshalMovie :: "(string \<Rightarrow> string \<Rightarrow> bool) \<Rightarrow> jvalue \<Rightarrow> string + MovieEvent" where
  "unmarshalMovie eqf JNull = Inr zeroMovie"
| "unmarshalMovie eqf (JObject kvs) =
     (case movieObject eqf kvs (zeroMovie, None) of
        (ev, None) \<Rightarrow> Inr ev
      | (ev, Some err) \<Rightarrow> Inl err)"
| "unmarshalMovie eqf v =
     Inl (''json: cannot unmarshal '' @ describe v @ '' into Go value of type main.MovieEvent'')"

text \<open>
  The other two structures hold a \<open>time.Time\<close>, and the payment a \<open>float64\<close>; storing
  into them is a parameter, as is \<open>Marshal\<close>. An error is given by its message.
\<close>

record json =
  ReadValue :: "bytes \<Rightarrow> string + jvalue"
  EqualFold :: "string \<Rightarrow> string \<Rightarrow> bool"
  UnmarshalUser :: "jvalue \<Rightarrow> string + UserEvent"
  UnmarshalPayment :: "jvalue \<Rightarrow> string + PaymentEvent"
  Marshal :: "eventData \<Rightarrow> string + bytes"

fun unmarshal :: "json \<Rightarrow> kind \<Rightarrow> jvalue \<Rightarrow> string + eventData" where
  "unmarshal J MovieKind v = map_sum id Movie (unmarshalMovie (EqualFold J) v)"
| "unmarshal J UserKind v = map_sum id User (UnmarshalUser J v)"
| "unmarshal J PaymentKind v = map_sum id Payment (UnmarshalPayment J v)"

definition Decode :: "json \<Rightarrow> kind \<Rightarrow> bytes \<Rightarrow> string + eventData" where
  "Decode J k b = (case ReadValue J b of Inl err \<Rightarrow> Inl err | Inr v \<Rightarrow> unmarshal J k v)"






subsection \<open>The Kafka writer\<close>

text \<open>
  A \<open>kafka.Message\<close>; the handler sets \<open>Topic\<close> and \<open>Value\<close> and leaves the key and the
  offset at their zero values.
\<close>

record Message =
  Topic :: string
  Offset :: int
  Key :: bytes
  Value :: bytes

text \<open>
  The shared writer with the broker behind it: every call of \<open>WriteMessages\<close> is
  recorded, the broker answers the \<open>n\<close>-th call with \<open>answer n\<close> (\<open>None\<close> is the
  \<open>nil\<close> error), and an acknowledged message is appended to the log of its topic.
\<close>

record Writer =
  answer :: "nat \<Rightarrow> string option"
  calls :: "Message list"
  acked :: "Message list"

definition WriteMessages :: "Writer \<Rightarrow> Message \<Rightarrow> string option \<times> Writer" where
  "WriteMessages wr m =
     (let err = answer wr (length (calls wr))
      in (err, wr\<lparr>calls := calls wr @ [m],
                   acked := (if err = None then acked wr @ [m] else acked wr)\<rparr>))"


subsection \<open>The HTTP handlers\<close>

definition movieTopic :: string where
  "movieTopic = ''movie-events''"

definition userTopic :: string where
  "userTopic = ''user-events''"

definition paymentTopic :: string where
  "paymentTopic = ''payment-events''"

text \<open>
  What the handlers act on: the writer, the process log, and the request bodies that
  were handed to the JSON decoder.
\<close>

record world =
  writer :: Writer
  logged :: "log_entry list"
  decoded :: "bytes list"

text \<open>The \<open>switch topic\<close> that allocates the target structure.\<close>

definition newEventData :: "string \<Rightarrow> kind option" where
  "newEventData topic =
     (if topic = movieTopic then Some MovieKind
      else if topic = userTopic then Some UserKind
      else if topic = paymentTopic then Some PaymentKind
      else None)"

definition created :: response where
  \<open>created = \<lparr>StatusCode = 201, Header = [(''Content-Type'', ''application/json'')],
               Payload = ''{"status":"success"}'' @ [CHR 0x0A]\<rparr>\<close>

definition handleEvent :: "json \<Rightarrow> string \<Rightarrow> request \<Rightarrow> world \<Rightarrow> response \<times> world" where
  "handleEvent J topic r w =
     (if Method r \<noteq> ''POST'' then (http_Error ''Method not allowed'' 405, w)
      else case newEventData topic of
        None \<Rightarrow> (http_Error ''Unknown event type'' 400, w)
      | Some k \<Rightarrow>
         (let w1 = w\<lparr>decoded := decoded w @ [Body r]\<rparr>
          in case Decode J k (Body r) of
            Inl err \<Rightarrow> (http_Error err 400, w1)
          | Inr ev \<Rightarrow>
             (case Marshal J ev of
                Inl err \<Rightarrow> (http_Error err 500, w1)
              | Inr eventBytes \<Rightarrow>
                 (case WriteMessages (writer w1)
                         \<lparr>Topic = topic, Offset = 0, Key = [], Value = eventBytes\<rparr> of
                    (Some err, wr) \<Rightarrow>
                      (http_Error ''Failed to write message to Kafka'' 500,
                       w1\<lparr>writer := wr,
                          logged := logged w1 @
                            [Printf ''Failed to write message to Kafka: %v'' [Err (errorString err)]]\<rparr>)
                  | (None, wr) \<Rightarrow>
                      (created,
                       w1\<lparr>writer := wr,
                          logged := logged w1 @
                            [Printf ''Successfully produced message to topic %s: %s''
                               [Str topic, Str eventBytes]]\<rparr>)))))"

definition handleHealth :: response where
  \<open>handleHealth = \<lparr>StatusCode = 200, Header = [], Payload = ''{"status":true}'' @ [CHR 0x0A]\<rparr>\<close>

text \<open>
  The patterns registered by \<open>main\<close>: three event endpoints, each with the handler of
  its topic, and the health endpoint. None ends in a slash, so each matches its path
  alone, and the multiplexer answers 404 to every other path.
\<close>

definition endpoints :: "(string \<times> string) list" where
  "endpoints = [(''/api/events/movie'', movieTopic),
                (''/api/events/user'', userTopic),
                (''/api/events/payment'', paymentTopic)]"

definition events_mux :: "json \<Rightarrow> request \<Rightarrow> world \<Rightarrow> response \<times> world" where
  "events_mux J r w =
     (case map_of endpoints (Path r) of
        Some topic \<Rightarrow> handleEvent J topic r w
      | None \<Rightarrow>
          if Path r = ''/api/events/health'' then (handleHealth, w)
          else (http_Error ''404 page not found'' 404, w))"

subsection \<open>The consumer loop\<close>

text \<open>
  One turn of the \<open>for\<close> loop of \<open>consume\<close>, on the outcome of \<open>r.ReadMessage\<close>: the
  line it logs, and whether the loop goes on (\<open>False\<close> is the \<open>break\<close>).
\<close>

definition consume_iteration :: "string \<Rightarrow> string + Message \<Rightarrow> log_entry \<times> bool" where
  "consume_iteration topic res =
     (case res of
        Inl err \<Rightarrow>
          (Printf ''Error reading message from topic %s: %v'' [Str topic, Err (errorString err)],
           False)
      | Inr m \<Rightarrow>
          (Printf (''[CONSUMER] Received message from topic %s at offset %d: %s = %s'' @ [CHR 0x0A])
             [Str (Topic m), Num (Offset m), Str (Key m), Str (Value m)],
           True))"

text \<open>
  The loop itself, on the outcomes of the successive reads: the lines it logs, and whether
  it has left the loop. When the outcomes given are used up without an error the
  goroutine is blocked in the next \<open>ReadMessage\<close>. \<open>consume\<close> is the whole function:
  it logs its start, runs the loop, and returns when the loop is left.
\<close>

fun consume_loop :: "string \<Rightarrow> (string + Message) list \<Rightarrow> log_entry list \<times> bool" where
  "consume_loop topic [] = ([], False)"
| "consume_loop topic (res # rest) =
     (let (l, continue) = consume_iteration topic res
      in if continue then (let (ls, returned) = consume_loop topic rest in (l # ls, returned))
         else ([l], True))"

definition consume :: "string \<Rightarrow> (string + Message) list \<Rightarrow> log_entry list \<times> bool" where
  "consume topic results =
     (let (ls, returned) = consume_loop topic results
      in (Printf ''Consumer started for topic %s'' [Str topic] # ls, returned))"

subsection \<open>The process: \<open>main\<close>, the three consumers and the HTTP server\<close>

text \<open>
  The goroutines run interleaved; the process is a state and every thing that can happen
  to it is an event. A consumer goroutine is spawned by \<open>main\<close>, starts (it creates its
  reader and logs), reads, and returns. The main goroutine is inside
  \<open>http.ListenAndServe\<close>, or inside \<open>wg.Wait\<close>, or the process has ended with an exit
  code; when the process has ended nothing runs any more.
\<close>

datatype goroutine = Absent | Spawned | Reading | Returned

datatype main_state = Serving | Waiting | Exited nat

record process =
  io :: world
  mainG :: main_state
  consumers :: "string \<Rightarrow> goroutine"
  wg :: int
  responses :: "response list"

datatype event =
    ListenReturns "string option"  \<comment> \<open>\<open>http.ListenAndServe\<close> returns this error\<close>
  | Start string                   \<comment> \<open>the consumer of this topic begins to run\<close>
  | Read string "string + Message" \<comment> \<open>\<open>ReadMessage\<close> of this topic's consumer returns\<close>
  | Request request                \<comment> \<open>the HTTP server receives a request\<close>

definition topics :: "string list" where
  "topics = [movieTopic, userTopic, paymentTopic]"

text \<open>\<open>wg.Add(1); go consume(context.Background(), topic, &wg)\<close>\<close>

definition spawn :: "process \<Rightarrow> string \<Rightarrow> process" where
  "spawn p topic = p\<lparr>wg := wg p + 1, consumers := (consumers p)(topic := Spawned)\<rparr>"

text \<open>
  \<open>main\<close> up to the call of \<open>http.ListenAndServe\<close>, in which it then blocks; \<open>broker\<close>
  is how the Kafka brokers answer the writer.
\<close>

definition main_start :: "env \<Rightarrow> (nat \<Rightarrow> string option) \<Rightarrow> process" where
  "main_start e broker =
     (let kafkaBrokers = getEnv e ''KAFKA_BROKERS'' ''localhost:9092'';
          p0 = \<lparr>io = \<lparr>writer = \<lparr>answer = broker, calls = [], acked = []\<rparr>,
                         logged = [], decoded = []\<rparr>,
                mainG = Serving, consumers = (\<lambda>t. Absent), wg = 0, responses = []\<rparr>;
          p1 = foldl spawn p0 topics;
          port' = getEnv e ''PORT'' ''8082''
      in p1\<lparr>io := (io p1)\<lparr>logged := logged (io p1) @
                [Printf ''Events service starting on port %s'' [Str port'],
                 Printf ''Connecting to Kafka brokers at %s'' [Str kafkaBrokers]]\<rparr>\<rparr>)"

definition log_line :: "process \<Rightarrow> log_entry \<Rightarrow> process" where
  "log_line p l = p\<lparr>io := (io p)\<lparr>logged := logged (io p) @ [l]\<rparr>\<rparr>"

text \<open>
  \<open>wg.Wait()\<close> followed by the return of \<open>main\<close>: the wait is over when the counter is
  zero, and the process then ends with code 0.
\<close>

definition wait :: "process \<Rightarrow> process" where
  "wait p = (if wg p = 0 then p\<lparr>mainG := Exited 0\<rparr> else p\<lparr>mainG := Waiting\<rparr>)"

text \<open>
  The return of \<open>consume\<close>: the deferred \<open>r.Close()\<close> and \<open>wg.Done()\<close>. A counter that
  would go below zero is a panic (exit code 2); a counter that reaches zero releases a
  waiting \<open>main\<close>.
\<close>

definition consume_return :: "process \<Rightarrow> string \<Rightarrow> process" where
  "consume_return p topic =
     (if wg p - 1 < 0 then p\<lparr>mainG := Exited 2\<rparr>
      else let p' = p\<lparr>consumers := (consumers p)(topic := Returned), wg := wg p - 1\<rparr>
           in if mainG p' = Waiting then wait p' else p')"

fun step :: "json \<Rightarrow> process \<Rightarrow> event \<Rightarrow> process" where
  "step J p (ListenReturns err) =
     (if mainG p = Serving then
        (case err of
           Some e \<Rightarrow> (log_line p (Fatalf ''Failed to start server: %v'' [Err (errorString e)]))
                       \<lparr>mainG := Exited 1\<rparr>
         | None \<Rightarrow> wait p)
      else p)"
| "step J p (Start topic) =
     (if (mainG p = Serving \<or> mainG p = Waiting) \<and> consumers p topic = Spawned then
        (log_line p (Printf ''Consumer started for topic %s'' [Str topic]))
          \<lparr>consumers := (consumers p)(topic := Reading)\<rparr>
      else p)"
| "step J p (Read topic res) =
     (if (mainG p = Serving \<or> mainG p = Waiting) \<and> consumers p topic = Reading then
        (let (l, continue) = consume_iteration topic res
         in if continue then log_line p l else consume_return (log_line p l) topic)
      else p)"
| "step J p (Request r) =
     (if mainG p = Serving then
        (let (resp, w) = events_mux J r (io p)
         in p\<lparr>io := w, responses := responses p @ [resp]\<rparr>)
      else p)"

definition run :: "json \<Rightarrow> process \<Rightarrow> event list \<Rightarrow> process" where
  "run J p evs = foldl (step J) p evs"

text \<open>
  The consumers that have not returned, and what holds of every state the process
  reaches: only the three topics have a consumer, the counter of the wait group is the
  number of consumers that have not returned, and \<open>wg.Done\<close> has not panicked.
\<close>

definition alive :: "(string \<Rightarrow> goroutine) \<Rightarrow> nat" where
  "alive c = length (filter (\<lambda>t. c t \<noteq> Returned) topics)"

definition wg_ok :: "process \<Rightarrow> bool" where
  "wg_ok p \<longleftrightarrow>
     (\<forall>t. t \<notin> set topics \<longrightarrow> consumers p t = Absent)
     \<and> (\<forall>t \<in> set topics. consumers p t \<noteq> Absent)
     \<and> wg p = int (alive (consumers p))
     \<and> mainG p \<noteq> Exited 2"

text \<open>
  \<open>http.ListenAndServe\<close> always returns a non-nil error; a sequence of events respects
  this when it has no return with \<open>nil\<close>.
\<close>

definition errors_only :: "event list \<Rightarrow> bool" where
  "errors_only evs = (ListenReturns None \<notin> set evs)"

section \<open>Concrete inputs\<close>

text \<open>A gateway configuration with the default URLs, and a request.\<close>

definition demo_config :: "bool \<Rightarrow> int \<Rightarrow> string config" where
  "demo_config enabled percent =
     \<lparr>port = ''8000'', monolithURL = ''http://localhost:8080'',
      moviesServiceURL = ''http://localhost:8081'', eventsServiceURL = ''http://localhost:8082'',
      gradualMigrationEnabled = enabled, migrationPercent = percent,
      monoURL = ''http://localhost:8080'', movURL = ''http://localhost:8081'',
      evtURL = ''http://localhost:8082''\<rparr>"

text \<open>A generator that yields the listed values and zeros after them.\<close>

definition draws :: "int list \<Rightarrow> rng" where
  "draws ds = (\<lambda>i. if i < length ds then ds ! i else 0)"

definition get :: "string \<Rightarrow> request" where
  "get p = \<lparr>Method = ''GET'', Path = p, Body = []\<rparr>"

definition post :: "string \<Rightarrow> bytes \<Rightarrow> request" where
  "post p b = \<lparr>Method = ''POST'', Path = p, Body = b\<rparr>"

text \<open>
  The movie event of the specification's example with its JSON text, the empty object
  with the text of the movie event it decodes to, an object whose \<open>movie_id\<close> is a
  string, and a stand-in for the parameters of the JSON library that knows these
  documents: it reads the three texts and the empty body, and encodes the two events.
\<close>

definition demo_movie :: MovieEvent where
  "demo_movie = \<lparr>MovieID = 1, Title = ''X'', Action = ''view'', UserID = 7\<rparr>"

definition demo_body :: bytes where
  \<open>demo_body = ''{"movie_id":1,"title":"X","action":"view","user_id":7}''\<close>

definition demo_value :: jvalue where
  "demo_value = JObject [(''movie_id'', JNumber ''1''), (''title'', JString ''X''),
                         (''action'', JString ''view''), (''user_id'', JNumber ''7'')]"

definition zero_body :: bytes where
  \<open>zero_body = ''{"movie_id":0,"title":"","action":"","user_id":0}''\<close>

definition bad_body :: bytes where
  \<open>bad_body = ''{"movie_id":"1"}''\<close>

definition demo_json :: json where
  "demo_json =
     \<lparr>ReadValue = (\<lambda>b. if b = demo_body then Inr demo_value
                        else if b = ''{}'' then Inr (JObject [])
                        else if b = bad_body then Inr (JObject [(''movie_id'', JString ''1'')])
                        else if b = [] then Inl ''EOF''
                        else Inl ''invalid character''),
      EqualFold = (\<lambda>name key. name = key),
      UnmarshalUser = (\<lambda>v. Inl ''unsupported''),
      UnmarshalPayment = (\<lambda>v. Inl ''unsupported''),
      Marshal = (\<lambda>ev. case ev of
                         Movie m \<Rightarrow> if m = demo_movie then Inr demo_body
                                    else if m = zeroMovie then Inr zero_body
                                    else Inl ''json: unsupported value''
                       | _ \<Rightarrow> Inl ''json: unsupported value'')\<rparr>"

text \<open>A fresh world whose broker answers every write with the given error.\<close>

definition demo_world :: "string option \<Rightarrow> world" where
  "demo_world err =
     \<lparr>writer = \<lparr>answer = (\<lambda>n. err), calls = [], acked = []\<rparr>, logged = [], decoded = []\<rparr>"

text \<open>
  A stand-in for \<open>url.Parse\<close> that rejects the one string \<open>:\<close> and keeps every other
  URL as it is, and three environments for the migration percentage.
\<close>

definition demo_Parse :: "string \<Rightarrow> error + string" where
  "demo_Parse u = (if u = '':'' then Inl (errorString ''missing protocol scheme'') else Inr u)"

definition bad_percent_env :: env where
  "bad_percent_env = [''GRADUAL_MIGRATION'' \<mapsto> ''true'', ''MOVIES_MIGRATION_PERCENT'' \<mapsto> ''fifty'']"

definition high_percent_env :: env where
  "high_percent_env = [''GRADUAL_MIGRATION'' \<mapsto> ''true'', ''MOVIES_MIGRATION_PERCENT'' \<mapsto> ''250'']"

definition low_percent_env :: env where
  "low_percent_env = [''GRADUAL_MIGRATION'' \<mapsto> ''true'', ''MOVIES_MIGRATION_PERCENT'' \<mapsto> ''-5'']"

text \<open>
  The events service started with an empty environment and a broker that acknowledges
  every write, and the same once its three consumers have begun to read.
\<close>

definition demo_start :: process where
  "demo_start = main_start (\<lambda>k. None) (\<lambda>n. None)"

definition demo_started :: process where
  "demo_started = run demo_json demo_start [Start movieTopic, Start userTopic, Start paymentTopic]"

section \<open>Properties of the gateway\<close>

subsection \<open>The multiplexer\<close>

lemma cleanPath_rooted: "HasPrefix (cleanPath p) ''/''"
  by (simp add: cleanPath_def Clean_def HasPrefix_def Let_def)

lemma dispatched_rooted:
  assumes "dispatched r" "Method r \<noteq> ''CONNECT''"
  shows "HasPrefix (Path r) ''/''"
proof -
  from assms have "cleanPath (Path r) = Path r" by (simp add: dispatched_def)
  with cleanPath_rooted[of "Path r"] show ?thesis by simp
qed

lemma HasPrefix_rooted: "HasPrefix p (CHR ''/'' # q) \<Longrightarrow> HasPrefix p ''/''"
  by (cases p) (auto simp: HasPrefix_def)

lemma gateway_redirect:
  "\<not> dispatched r \<Longrightarrow> gateway cfg r g = (Redirected (cleanPath (Path r)), [], g)"
  by (simp add: gateway_def)

lemma gateway_health:
  "dispatched r \<Longrightarrow> Path r = ''/health'' \<Longrightarrow> gateway cfg r g = (Replied health, [], g)"
  by (simp add: gateway_def)

lemma gateway_not_found:
  "dispatched r \<Longrightarrow> \<not> HasPrefix (Path r) ''/'' \<Longrightarrow>
   gateway cfg r g = (Replied (http_Error ''404 page not found'' 404), [], g)"
  by (auto simp: gateway_def HasPrefix_def)

lemma gateway_handler:
  "dispatched r \<Longrightarrow> HasPrefix (Path r) ''/'' \<Longrightarrow> Path r \<noteq> ''/health'' \<Longrightarrow>
   gateway cfg r g = handler cfg r g"
  by (simp add: gateway_def)

subsection \<open>The random draw and the three branches of the handler\<close>

lemma Intn_100_range: "0 \<le> fst (Intn 100 g) \<and> fst (Intn 100 g) < 100"
  by (simp add: Intn_def)

lemma movies_not_health: "HasPrefix p ''/api/movies'' \<Longrightarrow> p \<noteq> ''/health''"
  by (auto simp: HasPrefix_def)

lemma migrate_enabled:
  "gradualMigrationEnabled cfg \<Longrightarrow>
     migrate cfg g = (fst (Intn 100 g) < migrationPercent cfg, snd (Intn 100 g))"
  by (simp add: migrate_def split: prod.splits)

lemma migrate_disabled: "\<not> gradualMigrationEnabled cfg \<Longrightarrow> migrate cfg g = (False, g)"
  by (simp add: migrate_def)

lemma gateway_movies:
  assumes "HasPrefix (Path r) ''/api/movies''" "dispatched r"
  shows "gateway cfg r g =
           (if fst (migrate cfg g) then Proxied MoviesService (movURL cfg)
            else Proxied Monolith (monoURL cfg),
            [Printf ''Incoming request: %s %s'' [Str (Method r), Str (Path r)],
             if fst (migrate cfg g) then Printf ''Routing to movies-service (migration)'' []
             else Printf ''Routing to monolith'' []],
            snd (migrate cfg g))"
proof -
  have "gateway cfg r g = handler cfg r g"
    using assms(2) HasPrefix_rooted[OF assms(1)] movies_not_health[OF assms(1)]
    by (rule gateway_handler)
  then show ?thesis
    using assms(1)
    by (simp add: handler_def Let_def moviesProxy_def monolithProxy_def split: prod.splits)
qed

lemma gateway_events:
  assumes "\<not> HasPrefix (Path r) ''/api/movies''" "HasPrefix (Path r) ''/api/events''"
    "dispatched r"
  shows "gateway cfg r g =
           (Proxied EventsService (evtURL cfg),
            [Printf ''Incoming request: %s %s'' [Str (Method r), Str (Path r)],
             Printf ''Routing to events-service'' []], g)"
proof -
  from assms(2) have "Path r \<noteq> ''/health''" by (auto simp: HasPrefix_def)
  with assms(3) HasPrefix_rooted[OF assms(2)] have "gateway cfg r g = handler cfg r g"
    by (simp add: gateway_handler)
  with assms(1,2) show ?thesis by (simp add: handler_def eventsProxy_def)
qed

lemma gateway_default:
  assumes "\<not> HasPrefix (Path r) ''/api/movies''" "\<not> HasPrefix (Path r) ''/api/events''"
    "Path r \<noteq> ''/health''" "HasPrefix (Path r) ''/''" "dispatched r"
  shows "gateway cfg r g =
           (Proxied Monolith (monoURL cfg),
            [Printf ''Incoming request: %s %s'' [Str (Method r), Str (Path r)],
             Printf ''Routing to monolith (default)'' []], g)"
  using assms by (simp add: gateway_handler handler_def monolithProxy_def)

lemma handler_proxied: "\<exists>dest u. fst (handler cfg r g) = Proxied dest u"
  by (auto simp: handler_def Let_def moviesProxy_def monolithProxy_def eventsProxy_def
      split: prod.splits)

lemma movies_low_percent:
  assumes "HasPrefix (Path r) ''/api/movies''" "dispatched r" "migrationPercent cfg \<le> 0"
  shows "fst (gateway cfg r g) = Proxied Monolith (monoURL cfg)"
  using gateway_movies[OF assms(1,2), of cfg g] Intn_100_range[of g] assms(3)
  by (cases "gradualMigrationEnabled cfg") (auto simp: migrate_enabled migrate_disabled)

lemma movies_high_percent:
  assumes "HasPrefix (Path r) ''/api/movies''" "dispatched r" "gradualMigrationEnabled cfg"
    "100 \<le> migrationPercent cfg"
  shows "fst (gateway cfg r g) = Proxied MoviesService (movURL cfg)"
  using gateway_movies[OF assms(1,2), of cfg g] Intn_100_range[of g] assms(3,4)
  by (auto simp: migrate_enabled)

subsection \<open>Start-up\<close>

lemma parsePercent_ok: "Atoi s = Inr n \<Longrightarrow> parsePercent s = ([], n)"
  by (simp add: parsePercent_def)

lemma parsePercent_err:
  "Atoi s = Inl err \<Longrightarrow>
   parsePercent s =
     ([Printf ''Invalid MOVIES_MIGRATION_PERCENT value, defaulting to 0. Error: %v'' [Err err]], 0)"
  by (simp add: parsePercent_def)

lemma main_setup_Ready:
  assumes "snd (main_setup Parse e) = Ready cfg"
  shows "migrationPercent cfg = snd (parsePercent (getEnv e ''MOVIES_MIGRATION_PERCENT'' ''0''))"
    and "gradualMigrationEnabled cfg = (getEnv e ''GRADUAL_MIGRATION'' ''false'' = ''true'')"
  using assms
  by (auto simp: main_setup_def Let_def split: prod.splits sum.splits)

lemma main_setup_urls:
  assumes "snd (main_setup Parse e) = Ready cfg"
  shows "Parse (getEnv e ''MONOLITH_URL'' ''http://localhost:8080'') = Inr (monoURL cfg)"
    and "Parse (getEnv e ''MOVIES_SERVICE_URL'' ''http://localhost:8081'') = Inr (movURL cfg)"
    and "Parse (getEnv e ''EVENTS_SERVICE_URL'' ''http://localhost:8082'') = Inr (evtURL cfg)"
  using assms
  by (auto simp: main_setup_def Let_def split: prod.splits sum.splits)

lemma main_setup_Fatal:
  "snd (main_setup Parse e) = Fatal \<longleftrightarrow>
     isl (Parse (getEnv e ''MONOLITH_URL'' ''http://localhost:8080''))
     \<or> isl (Parse (getEnv e ''MOVIES_SERVICE_URL'' ''http://localhost:8081''))
     \<or> isl (Parse (getEnv e ''EVENTS_SERVICE_URL'' ''http://localhost:8082''))"
  by (auto simp: main_setup_def Let_def split: prod.splits sum.splits)

lemma main_setup_log:
  "set (fst (parsePercent (getEnv e ''MOVIES_MIGRATION_PERCENT'' ''0'')))
     \<subseteq> set (fst (main_setup Parse e))"
  by (auto simp: main_setup_def Let_def split: prod.splits sum.splits)

lemma Atoi_fifty: "Atoi ''fifty'' = Inl (ErrSyntax ''fifty'')"
  by (simp add: Atoi_def isDigit_def)

lemma Atoi_250: "Atoi ''250'' = Inr 250"
  by (simp add: Atoi_def isDigit_def digit_def maxUint64_def)

lemma Atoi_minus_5: "Atoi ''-5'' = Inr (- 5)"
  by (simp add: Atoi_def isDigit_def digit_def maxUint64_def)

lemma setup_bad_percent:
  "main_setup demo_Parse bad_percent_env =
     ([Printf ''Invalid MOVIES_MIGRATION_PERCENT value, defaulting to 0. Error: %v''
         [Err (ErrSyntax ''fifty'')],
       Printf ''Strangler Fig Proxy started on port %s'' [Str ''8000''],
       Printf ''Monolith URL: %s'' [Str ''http://localhost:8080''],
       Printf ''Movies Service URL: %s'' [Str ''http://localhost:8081''],
       Printf ''Gradual migration enabled: %v'' [Flag True],
       Printf ''Movies migration percentage: %d%%'' [Num 0]],
      Ready (demo_config True 0))"
  by (simp add: main_setup_def bad_percent_env_def getEnv_def parsePercent_def Atoi_fifty
        demo_Parse_def demo_config_def Let_def)

lemma setup_high_percent:
  "snd (main_setup demo_Parse high_percent_env) = Ready (demo_config True 250)"
  by (simp add: main_setup_def high_percent_env_def getEnv_def parsePercent_def Atoi_250
        demo_Parse_def demo_config_def Let_def)

lemma setup_low_percent:
  "snd (main_setup demo_Parse low_percent_env) = Ready (demo_config True (- 5))"
  by (simp add: main_setup_def low_percent_env_def getEnv_def parsePercent_def Atoi_minus_5
        demo_Parse_def demo_config_def Let_def)

subsection \<open>Concrete requests\<close>

lemma clean_movies_1: "cleanPath ''/api/movies/1'' = ''/api/movies/1''"
  by (simp add: cleanPath_def Clean_def)

lemma clean_movies: "cleanPath ''/api/movies'' = ''/api/movies''"
  by (simp add: cleanPath_def Clean_def)

lemma clean_events_movie: "cleanPath ''/api/events/movie'' = ''/api/events/movie''"
  by (simp add: cleanPath_def Clean_def)

lemma clean_users: "cleanPath ''/api/users'' = ''/api/users''"
  by (simp add: cleanPath_def Clean_def)

lemma clean_health: "cleanPath ''/health'' = ''/health''"
  by (simp add: cleanPath_def Clean_def)

lemma clean_double_slash: "cleanPath ''/api/movies//1'' = ''/api/movies/1''"
  by (simp add: cleanPath_def Clean_def)

lemma clean_dot_dot: "cleanPath ''/api/movies/../events'' = ''/api/events''"
  by (simp add: cleanPath_def Clean_def)

lemma clean_dot: "cleanPath ''/api/movies/./1'' = ''/api/movies/1''"
  by (simp add: cleanPath_def Clean_def)

lemma clean_leading_slashes: "cleanPath ''//api/users'' = ''/api/users''"
  by (simp add: cleanPath_def Clean_def)

lemma dispatched_get: "dispatched (get p) \<longleftrightarrow> cleanPath p = p"
  by (simp add: dispatched_def get_def)

subsection \<open>Claims about the gateway\<close>

text \<open>
  Claim C1, as stated, fails at the path \<open>/api/movies//1\<close>: it begins with
  \<open>/api/movies\<close>, and migration is enabled with 100 per cent, yet the request is not
  forwarded to movies-service, nor to any origin. The multiplexer answers it with a
  redirect to \<open>/api/movies/1\<close>; the handler does not run and no number is drawn.
\<close>

theorem C1_double_slash_redirected:
  "HasPrefix (Path (get ''/api/movies//1'')) ''/api/movies''
   \<and> gradualMigrationEnabled (demo_config True 100)
   \<and> migrationPercent (demo_config True 100) = 100
   \<and> gateway (demo_config True 100) (get ''/api/movies//1'') (draws [7])
       = (Redirected ''/api/movies/1'', [], draws [7])
   \<and> fst (gateway (demo_config True 100) (get ''/api/movies//1'') (draws [7]))
       \<noteq> Proxied MoviesService (movURL (demo_config True 100))"
  by (simp add: HasPrefix_def get_def gateway_def dispatched_def clean_double_slash
      demo_config_def)

text \<open>
  Claim C1, amended. A request whose path begins with \<open>/api/movies\<close> and that the
  multiplexer hands to a handler (its path is in canonical form, or its method is
  \<open>CONNECT\<close>) is served by a reverse proxy: with migration enabled, by the proxy of
  movies-service, which forwards to the URL parsed from \<open>MOVIES_SERVICE_URL\<close>, exactly
  when the draw \<open>rand.Intn(100)\<close>, the next value of the generator and a number from 0
  to 99, is strictly below the configured percentage, and by the proxy of the monolith,
  which forwards to the URL parsed from \<open>MONOLITH_URL\<close>, otherwise, and the generator
  has advanced by that one draw; with migration disabled, by the proxy of the monolith
  whatever the percentage, and no number is drawn. So with migration enabled, 100 per
  cent sends every such request to movies-service and 0 per cent sends every one to the
  monolith. A request whose path is not canonical is answered with the redirect to the
  canonical path, without a draw. (That the draws are uniformly distributed is a property
  of the library's generator and is not part of the statement.)
\<close>

theorem C1_movies_split:
  assumes "HasPrefix (Path r) ''/api/movies''"
  shows "(dispatched r \<and> gradualMigrationEnabled cfg \<longrightarrow>
            (fst (gateway cfg r g) = Proxied MoviesService (movURL cfg)
               \<longleftrightarrow> fst (Intn 100 g) < migrationPercent cfg)
          \<and> (fst (gateway cfg r g) = Proxied Monolith (monoURL cfg)
               \<longleftrightarrow> \<not> fst (Intn 100 g) < migrationPercent cfg)
          \<and> snd (snd (gateway cfg r g)) = snd (Intn 100 g))
       \<and> (dispatched r \<and> \<not> gradualMigrationEnabled cfg \<longrightarrow>
            fst (gateway cfg r g) = Proxied Monolith (monoURL cfg)
            \<and> snd (snd (gateway cfg r g)) = g)
       \<and> 0 \<le> fst (Intn 100 g) \<and> fst (Intn 100 g) < 100
       \<and> (dispatched r \<and> gradualMigrationEnabled cfg \<and> migrationPercent cfg = 100 \<longrightarrow>
            fst (gateway cfg r g) = Proxied MoviesService (movURL cfg))
       \<and> (dispatched r \<and> gradualMigrationEnabled cfg \<and> migrationPercent cfg = 0 \<longrightarrow>
            fst (gateway cfg r g) = Proxied Monolith (monoURL cfg))
       \<and> (\<not> dispatched r \<longrightarrow> gateway cfg r g = (Redirected (cleanPath (Path r)), [], g))
       \<and> (\<forall>Parse e. snd (main_setup Parse e) = Ready cfg \<longrightarrow>
            Parse (getEnv e ''MOVIES_SERVICE_URL'' ''http://localhost:8081'') = Inr (movURL cfg)
            \<and> Parse (getEnv e ''MONOLITH_URL'' ''http://localhost:8080'') = Inr (monoURL cfg))"
proof -
  note rg = Intn_100_range[of g]
  have split: "(gradualMigrationEnabled cfg \<longrightarrow>
            (fst (gateway cfg r g) = Proxied MoviesService (movURL cfg)
               \<longleftrightarrow> fst (Intn 100 g) < migrationPercent cfg)
          \<and> (fst (gateway cfg r g) = Proxied Monolith (monoURL cfg)
               \<longleftrightarrow> \<not> fst (Intn 100 g) < migrationPercent cfg)
          \<and> snd (snd (gateway cfg r g)) = snd (Intn 100 g))
       \<and> (\<not> gradualMigrationEnabled cfg \<longrightarrow>
            fst (gateway cfg r g) = Proxied Monolith (monoURL cfg)
            \<and> snd (snd (gateway cfg r g)) = g)"
    if d: "dispatched r"
  proof (cases "gradualMigrationEnabled cfg")
    case True
    then show ?thesis using gateway_movies[OF assms d, of cfg g] by (simp add: migrate_enabled)
  next
    case False
    then show ?thesis using gateway_movies[OF assms d, of cfg g] by (simp add: migrate_disabled)
  qed
  have urls: "Parse (getEnv e ''MOVIES_SERVICE_URL'' ''http://localhost:8081'') = Inr (movURL cfg)
            \<and> Parse (getEnv e ''MONOLITH_URL'' ''http://localhost:8080'') = Inr (monoURL cfg)"
    if "snd (main_setup Parse e) = Ready cfg" for Parse e
    using main_setup_urls(1,2)[OF that] by simp
  from split rg gateway_redirect[of r cfg g] urls show ?thesis
    by (cases "dispatched r") auto
qed

theorem C1_movies_split_witness:
  "HasPrefix (Path (get ''/api/movies/1'')) ''/api/movies''
   \<and> dispatched (get ''/api/movies/1'')
   \<and> fst (Intn 100 (draws [7, 93])) = 7
   \<and> fst (gateway (demo_config True 50) (get ''/api/movies/1'') (draws [7, 93]))
       = Proxied MoviesService ''http://localhost:8081''
   \<and> fst (Intn 100 (snd (snd (gateway (demo_config True 50) (get ''/api/movies/1'')
         (draws [7, 93]))))) = 93
   \<and> fst (gateway (demo_config True 50) (get ''/api/movies/1'') (draws [93]))
       = Proxied Monolith ''http://localhost:8080''
   \<and> fst (gateway (demo_config False 50) (get ''/api/movies/1'') (draws [7, 93]))
       = Proxied Monolith ''http://localhost:8080''
   \<and> fst (gateway (demo_config True 100) (get ''/api/movies/1'') (draws [99]))
       = Proxied MoviesService ''http://localhost:8081''
   \<and> fst (gateway (demo_config True 0) (get ''/api/movies/1'') (draws [0]))
       = Proxied Monolith ''http://localhost:8080''
   \<and> HasPrefix (Path (get ''/api/movies/./1'')) ''/api/movies''
   \<and> \<not> dispatched (get ''/api/movies/./1'')
   \<and> gateway (demo_config True 50) (get ''/api/movies/./1'') (draws [7, 93])
       = (Redirected ''/api/movies/1'', [], draws [7, 93])
   \<and> snd (main_setup demo_Parse high_percent_env) = Ready (demo_config True 250)
   \<and> demo_Parse (getEnv high_percent_env ''MOVIES_SERVICE_URL'' ''http://localhost:8081'')
       = Inr (movURL (demo_config True 250))"
proof -
  have h: "HasPrefix (Path (get ''/api/movies/1'')) ''/api/movies''"
    and h': "HasPrefix (Path (get ''/api/movies/./1'')) ''/api/movies''"
    by (simp_all add: HasPrefix_def get_def)
  have d: "dispatched (get ''/api/movies/1'')" and d': "\<not> dispatched (get ''/api/movies/./1'')"
    by (simp_all add: dispatched_get clean_movies_1 clean_dot)
  have p: "Path (get ''/api/movies/./1'') = ''/api/movies/./1''"
    by (simp add: get_def)
  show ?thesis
    using h h' d d' setup_high_percent
      C1_movies_split[OF h, of "demo_config True 50" "draws [7, 93]"]
      C1_movies_split[OF h, of "demo_config True 50" "draws [93]"]
      C1_movies_split[OF h, of "demo_config False 50" "draws [7, 93]"]
      C1_movies_split[OF h, of "demo_config True 100" "draws [99]"]
      C1_movies_split[OF h, of "demo_config True 0" "draws [0]"]
      C1_movies_split[OF h', of "demo_config True 50" "draws [7, 93]"]
      C1_movies_split[OF h, of "demo_config True 250" "draws [0]"]
    by (simp add: demo_config_def Intn_def draws_def p clean_dot)
qed

text \<open>
  Claim C2, as stated, fails at three requests whose paths begin with neither
  \<open>/api/movies\<close> nor \<open>/api/events\<close> and that are forwarded to no origin. The path
  \<open>/health\<close> is answered by the handler registered for it, with status 200 and the
  fixed body. The path \<open>//api/users\<close> is not canonical, and the multiplexer answers it
  with a redirect to \<open>/api/users\<close>. A \<open>CONNECT\<close> request with an empty path matches
  no pattern and is answered with 404.
\<close>

theorem C2_health_not_forwarded:
  "\<not> HasPrefix (Path (get ''/health'')) ''/api/movies''
   \<and> \<not> HasPrefix (Path (get ''/health'')) ''/api/events''
   \<and> gateway (demo_config False 0) (get ''/health'') (draws [0]) = (Replied health, [], draws [0])
   \<and> fst (gateway (demo_config False 0) (get ''/health'') (draws [0]))
       \<noteq> Proxied Monolith (monoURL (demo_config False 0))
   \<and> \<not> HasPrefix (Path (get ''//api/users'')) ''/api/movies''
   \<and> \<not> HasPrefix (Path (get ''//api/users'')) ''/api/events''
   \<and> gateway (demo_config False 0) (get ''//api/users'') (draws [0])
       = (Redirected ''/api/users'', [], draws [0])
   \<and> \<not> HasPrefix (Path \<lparr>Method = ''CONNECT'', Path = [], Body = []\<rparr>) ''/api/movies''
   \<and> \<not> HasPrefix (Path \<lparr>Method = ''CONNECT'', Path = [], Body = []\<rparr>) ''/api/events''
   \<and> gateway (demo_config False 0) \<lparr>Method = ''CONNECT'', Path = [], Body = []\<rparr> (draws [0])
       = (Replied (http_Error ''404 page not found'' 404), [], draws [0])"
  by (simp add: HasPrefix_def get_def gateway_def dispatched_def clean_health
      clean_leading_slashes)

text \<open>
  Claim C2, amended. A request whose path does not begin with \<open>/api/movies\<close> and that
  the multiplexer hands to a handler (its path is in canonical form, or its method is
  \<open>CONNECT\<close>): if the path begins with \<open>/api/events\<close> it is served by the proxy of
  events-service, which forwards to the URL parsed from \<open>EVENTS_SERVICE_URL\<close>, whatever
  the migration flag and percentage; the path \<open>/health\<close> is answered by the gateway
  itself; every other path that begins with a slash is served by the proxy of the
  monolith, which forwards to the URL parsed from \<open>MONOLITH_URL\<close>; a path that does
  not begin with a slash, which only a \<open>CONNECT\<close> request can have, is answered with
  404. A request whose path is not canonical is answered with the redirect to the
  canonical path. No number is drawn for any of them. Every request that is handed to a
  handler, begins with a slash and is not \<open>/health\<close> is forwarded to exactly one of the
  three origins.
\<close>

theorem C2_other_paths:
  "(dispatched r \<and> \<not> HasPrefix (Path r) ''/api/movies'' \<and> HasPrefix (Path r) ''/api/events''
      \<longrightarrow> fst (gateway cfg r g) = Proxied EventsService (evtURL cfg)
          \<and> snd (snd (gateway cfg r g)) = g)
   \<and> (dispatched r \<and> \<not> HasPrefix (Path r) ''/api/movies''
        \<and> \<not> HasPrefix (Path r) ''/api/events'' \<and> Path r \<noteq> ''/health''
        \<and> HasPrefix (Path r) ''/''
      \<longrightarrow> fst (gateway cfg r g) = Proxied Monolith (monoURL cfg)
          \<and> snd (snd (gateway cfg r g)) = g)
   \<and> (dispatched r \<and> Path r = ''/health'' \<longrightarrow> gateway cfg r g = (Replied health, [], g))
   \<and> (dispatched r \<and> \<not> HasPrefix (Path r) ''/'' \<longrightarrow>
        Method r = ''CONNECT''
        \<and> gateway cfg r g = (Replied (http_Error ''404 page not found'' 404), [], g))
   \<and> (\<not> dispatched r \<longrightarrow> gateway cfg r g = (Redirected (cleanPath (Path r)), [], g))
   \<and> (dispatched r \<and> HasPrefix (Path r) ''/'' \<and> Path r \<noteq> ''/health'' \<longrightarrow>
        (\<exists>!dest. \<exists>u. fst (gateway cfg r g) = Proxied dest u)
        \<and> (\<forall>dest u. fst (gateway cfg r g) = Proxied dest u \<longrightarrow>
              u = (case dest of Monolith \<Rightarrow> monoURL cfg | MoviesService \<Rightarrow> movURL cfg
                   | EventsService \<Rightarrow> evtURL cfg)))
   \<and> (\<forall>Parse e. snd (main_setup Parse e) = Ready cfg \<longrightarrow>
        Parse (getEnv e ''MONOLITH_URL'' ''http://localhost:8080'') = Inr (monoURL cfg)
        \<and> Parse (getEnv e ''MOVIES_SERVICE_URL'' ''http://localhost:8081'') = Inr (movURL cfg)
        \<and> Parse (getEnv e ''EVENTS_SERVICE_URL'' ''http://localhost:8082'') = Inr (evtURL cfg))"
proof -
  have events: "fst (gateway cfg r g) = Proxied EventsService (evtURL cfg)
      \<and> snd (snd (gateway cfg r g)) = g"
    if "dispatched r" "\<not> HasPrefix (Path r) ''/api/movies''" "HasPrefix (Path r) ''/api/events''"
    by (simp add: gateway_events[OF that(2,3,1)])
  have other: "fst (gateway cfg r g) = Proxied Monolith (monoURL cfg)
      \<and> snd (snd (gateway cfg r g)) = g"
    if "dispatched r" "\<not> HasPrefix (Path r) ''/api/movies''" "\<not> HasPrefix (Path r) ''/api/events''"
      "Path r \<noteq> ''/health''" "HasPrefix (Path r) ''/''"
    by (simp add: gateway_default[OF that(2,3,4,5,1)])
  have notfound: "Method r = ''CONNECT''
      \<and> gateway cfg r g = (Replied (http_Error ''404 page not found'' 404), [], g)"
    if "dispatched r" "\<not> HasPrefix (Path r) ''/''"
    using that dispatched_rooted[of r] gateway_not_found[OF that, of cfg g] by blast
  have one: "(\<exists>!dest. \<exists>u. fst (gateway cfg r g) = Proxied dest u)
        \<and> (\<forall>dest u. fst (gateway cfg r g) = Proxied dest u \<longrightarrow>
              u = (case dest of Monolith \<Rightarrow> monoURL cfg | MoviesService \<Rightarrow> movURL cfg
                   | EventsService \<Rightarrow> evtURL cfg))"
    if "dispatched r" "HasPrefix (Path r) ''/''" "Path r \<noteq> ''/health''"
  proof -
    have "fst (gateway cfg r g) = fst (handler cfg r g)"
      by (simp add: gateway_handler[OF that])
    moreover have "fst (handler cfg r g) = Proxied Monolith (monoURL cfg)
        \<or> fst (handler cfg r g) = Proxied MoviesService (movURL cfg)
        \<or> fst (handler cfg r g) = Proxied EventsService (evtURL cfg)"
      by (auto simp: handler_def Let_def moviesProxy_def monolithProxy_def eventsProxy_def
          split: prod.splits)
    ultimately show ?thesis by auto
  qed
  have urls: "Parse (getEnv e ''MONOLITH_URL'' ''http://localhost:8080'') = Inr (monoURL cfg)
        \<and> Parse (getEnv e ''MOVIES_SERVICE_URL'' ''http://localhost:8081'') = Inr (movURL cfg)
        \<and> Parse (getEnv e ''EVENTS_SERVICE_URL'' ''http://localhost:8082'') = Inr (evtURL cfg)"
    if "snd (main_setup Parse e) = Ready cfg" for Parse e
    using main_setup_urls[OF that] by simp
  from events other notfound one urls gateway_health[of r cfg g] gateway_redirect[of r cfg g]
  show ?thesis
    by blast
qed

theorem C2_other_paths_witness:
  "(dispatched (get ''/api/events/movie'')
      \<and> \<not> HasPrefix (Path (get ''/api/events/movie'')) ''/api/movies''
      \<and> HasPrefix (Path (get ''/api/events/movie'')) ''/api/events''
      \<and> fst (gateway (demo_config True 100) (get ''/api/events/movie'') (draws [0]))
          = Proxied EventsService ''http://localhost:8082'')
   \<and> (dispatched (get ''/api/users'')
      \<and> \<not> HasPrefix (Path (get ''/api/users'')) ''/api/movies''
      \<and> \<not> HasPrefix (Path (get ''/api/users'')) ''/api/events''
      \<and> Path (get ''/api/users'') \<noteq> ''/health''
      \<and> HasPrefix (Path (get ''/api/users'')) ''/''
      \<and> fst (gateway (demo_config True 100) (get ''/api/users'') (draws [0]))
          = Proxied Monolith ''http://localhost:8080'')
   \<and> (dispatched (get ''/health'') \<and> Path (get ''/health'') = ''/health''
      \<and> gateway (demo_config True 100) (get ''/health'') (draws [0])
          = (Replied health, [], draws [0]))
   \<and> (\<not> dispatched (get ''//api/users'')
      \<and> gateway (demo_config True 100) (get ''//api/users'') (draws [0])
          = (Redirected ''/api/users'', [], draws [0]))
   \<and> (snd (main_setup demo_Parse low_percent_env) = Ready (demo_config True (- 5))
      \<and> demo_Parse (getEnv low_percent_env ''EVENTS_SERVICE_URL'' ''http://localhost:8082'')
          = Inr (evtURL (demo_config True (- 5))))"
proof -
  have d: "dispatched (get ''/api/events/movie'')" "dispatched (get ''/api/users'')"
    "dispatched (get ''/health'')" "\<not> dispatched (get ''//api/users'')"
    by (simp_all add: dispatched_get clean_events_movie clean_users clean_health
        clean_leading_slashes)
  have p: "Path (get ''//api/users'') = ''//api/users''"
    by (simp add: get_def)
  show ?thesis
    using d setup_low_percent
      C2_other_paths[of "get ''/api/events/movie''" "demo_config True 100" "draws [0]"]
      C2_other_paths[of "get ''/api/users''" "demo_config True 100" "draws [0]"]
      C2_other_paths[of "get ''/health''" "demo_config True 100" "draws [0]"]
      C2_other_paths[of "get ''//api/users''" "demo_config True 100" "draws [0]"]
      C2_other_paths[of _ "demo_config True (- 5)"]
    by (simp add: HasPrefix_def get_def demo_config_def clean_leading_slashes)
qed

text \<open>
  Claim C9, as stated, fails at the path \<open>/api/movies/../events\<close>: the percentage does
  not parse, the gateway starts with the percentage 0 and migration enabled, and this
  request under \<open>/api/movies\<close> is not routed to the monolith. Its path is not canonical,
  and the multiplexer answers it with a redirect to \<open>/api/events\<close>.
\<close>

theorem C9_dot_dot_redirected:
  "Atoi (getEnv bad_percent_env ''MOVIES_MIGRATION_PERCENT'' ''0'') = Inl (ErrSyntax ''fifty'')
   \<and> snd (main_setup demo_Parse bad_percent_env) = Ready (demo_config True 0)
   \<and> gradualMigrationEnabled (demo_config True 0)
   \<and> HasPrefix (Path (get ''/api/movies/../events'')) ''/api/movies''
   \<and> gateway (demo_config True 0) (get ''/api/movies/../events'') (draws [0])
       = (Redirected ''/api/events'', [], draws [0])
   \<and> fst (gateway (demo_config True 0) (get ''/api/movies/../events'') (draws [0]))
       \<noteq> Proxied Monolith (monoURL (demo_config True 0))"
  by (simp add: bad_percent_env_def getEnv_def Atoi_fifty setup_bad_percent[unfolded bad_percent_env_def]
      HasPrefix_def get_def gateway_def dispatched_def clean_dot_dot demo_config_def)

text \<open>
  Claim C9, amended. When the value of \<open>MOVIES_MIGRATION_PERCENT\<close> does not parse as an
  integer, start-up is fatal only if one of the three upstream URLs fails to parse, as it
  is for every other value; the error is logged; and a gateway that starts has the
  percentage 0, so it forwards every request under \<open>/api/movies\<close> that the multiplexer
  hands to a handler (its path is in canonical form, or its method is \<open>CONNECT\<close>) to
  the monolith, at the URL parsed from \<open>MONOLITH_URL\<close>, with migration enabled or not.
  A request whose path is not canonical is answered with the redirect to the canonical
  path.
\<close>

theorem C9_bad_percent_not_fatal:
  assumes "Atoi (getEnv e ''MOVIES_MIGRATION_PERCENT'' ''0'') = Inl err"
  shows "(snd (main_setup Parse e) = Fatal \<longleftrightarrow>
            isl (Parse (getEnv e ''MONOLITH_URL'' ''http://localhost:8080''))
            \<or> isl (Parse (getEnv e ''MOVIES_SERVICE_URL'' ''http://localhost:8081''))
            \<or> isl (Parse (getEnv e ''EVENTS_SERVICE_URL'' ''http://localhost:8082'')))
       \<and> Printf ''Invalid MOVIES_MIGRATION_PERCENT value, defaulting to 0. Error: %v'' [Err err]
            \<in> set (fst (main_setup Parse e))
       \<and> (\<forall>cfg. snd (main_setup Parse e) = Ready cfg \<longrightarrow>
            migrationPercent cfg = 0
            \<and> Parse (getEnv e ''MONOLITH_URL'' ''http://localhost:8080'') = Inr (monoURL cfg)
            \<and> (\<forall>r g. HasPrefix (Path r) ''/api/movies'' \<and> dispatched r \<longrightarrow>
                  fst (gateway cfg r g) = Proxied Monolith (monoURL cfg))
            \<and> (\<forall>r g. \<not> dispatched r \<longrightarrow>
                  gateway cfg r g = (Redirected (cleanPath (Path r)), [], g)))"
proof -
  have pp: "parsePercent (getEnv e ''MOVIES_MIGRATION_PERCENT'' ''0'') =
      ([Printf ''Invalid MOVIES_MIGRATION_PERCENT value, defaulting to 0. Error: %v'' [Err err]], 0)"
    by (rule parsePercent_err[OF assms])
  have logged: "Printf ''Invalid MOVIES_MIGRATION_PERCENT value, defaulting to 0. Error: %v'' [Err err]
            \<in> set (fst (main_setup Parse e))"
    using main_setup_log[of e Parse] by (simp add: pp)
  have zero: "migrationPercent cfg = 0" if "snd (main_setup Parse e) = Ready cfg" for cfg
    using main_setup_Ready(1)[OF that] by (simp add: pp)
  have mono: "fst (gateway cfg r g) = Proxied Monolith (monoURL cfg)"
    if "snd (main_setup Parse e) = Ready cfg" "HasPrefix (Path r) ''/api/movies''" "dispatched r"
    for cfg r g
    using movies_low_percent[OF that(2,3), of cfg g] zero[OF that(1)] by simp
  have url: "Parse (getEnv e ''MONOLITH_URL'' ''http://localhost:8080'') = Inr (monoURL cfg)"
    if "snd (main_setup Parse e) = Ready cfg" for cfg
    by (rule main_setup_urls(1)[OF that])
  from main_setup_Fatal[of Parse e] logged zero mono url gateway_redirect show ?thesis
    by blast
qed

theorem C9_bad_percent_not_fatal_witness:
  "Atoi (getEnv bad_percent_env ''MOVIES_MIGRATION_PERCENT'' ''0'') = Inl (ErrSyntax ''fifty'')
   \<and> snd (main_setup demo_Parse bad_percent_env) = Ready (demo_config True 0)
   \<and> Printf ''Invalid MOVIES_MIGRATION_PERCENT value, defaulting to 0. Error: %v''
        [Err (ErrSyntax ''fifty'')] \<in> set (fst (main_setup demo_Parse bad_percent_env))
   \<and> gradualMigrationEnabled (demo_config True 0)
   \<and> HasPrefix (Path (get ''/api/movies'')) ''/api/movies''
   \<and> dispatched (get ''/api/movies'')
   \<and> fst (gateway (demo_config True 0) (get ''/api/movies'') (draws [0]))
       = Proxied Monolith ''http://localhost:8080''
   \<and> \<not> dispatched (get ''/api/movies//1'')
   \<and> gateway (demo_config True 0) (get ''/api/movies//1'') (draws [0])
       = (Redirected ''/api/movies/1'', [], draws [0])"
proof -
  have h: "Atoi (getEnv bad_percent_env ''MOVIES_MIGRATION_PERCENT'' ''0'') = Inl (ErrSyntax ''fifty'')"
    by (simp add: bad_percent_env_def getEnv_def Atoi_fifty)
  have p: "HasPrefix (Path (get ''/api/movies'')) ''/api/movies''"
    by (simp add: HasPrefix_def get_def)
  have d: "dispatched (get ''/api/movies'')" "\<not> dispatched (get ''/api/movies//1'')"
    by (simp_all add: dispatched_get clean_movies clean_double_slash)
  have q: "Path (get ''/api/movies//1'') = ''/api/movies//1''"
    by (simp add: get_def)
  show ?thesis
    using h p d C9_bad_percent_not_fatal[OF h, of demo_Parse]
    by (simp add: setup_bad_percent demo_config_def q clean_double_slash)
qed

text \<open>
  Claim C10, as stated, fails at the path \<open>/api/movies/./1\<close>: migration is enabled and
  the configured percentage is 250, yet this request under \<open>/api/movies\<close> is not routed
  to movies-service. Its path is not canonical, and the multiplexer answers it with a
  redirect to \<open>/api/movies/1\<close>.
\<close>

theorem C10_dot_redirected:
  "snd (main_setup demo_Parse high_percent_env) = Ready (demo_config True 250)
   \<and> gradualMigrationEnabled (demo_config True 250)
   \<and> 100 \<le> migrationPercent (demo_config True 250)
   \<and> HasPrefix (Path (get ''/api/movies/./1'')) ''/api/movies''
   \<and> gateway (demo_config True 250) (get ''/api/movies/./1'') (draws [0])
       = (Redirected ''/api/movies/1'', [], draws [0])
   \<and> fst (gateway (demo_config True 250) (get ''/api/movies/./1'') (draws [0]))
       \<noteq> Proxied MoviesService (movURL (demo_config True 250))"
  by (simp add: setup_high_percent HasPrefix_def get_def gateway_def dispatched_def clean_dot
      demo_config_def)

text \<open>
  Claim C10, amended. The configured percentage is the integer that \<open>main\<close> keeps: the
  value that \<open>Atoi\<close> returned for \<open>MOVIES_MIGRATION_PERCENT\<close>, with no check against
  the range from 0 to 100 (a value that \<open>Atoi\<close> rejects is kept as 0, which is claim
  C9). With migration enabled, every percentage of at least 100 sends every request under
  \<open>/api/movies\<close> that the multiplexer hands to a handler (its path is in canonical
  form, or its method is \<open>CONNECT\<close>) to movies-service, at the URL parsed from
  \<open>MOVIES_SERVICE_URL\<close>, and every percentage of at most 0 sends every one to the
  monolith, at the URL parsed from \<open>MONOLITH_URL\<close>, whatever the generator yields. A
  request whose path is not canonical is answered with the redirect to the canonical
  path.
\<close>

theorem C10_percent_not_clamped:
  "(\<forall>n c. Atoi (getEnv e ''MOVIES_MIGRATION_PERCENT'' ''0'') = Inr n
            \<and> snd (main_setup Parse e) = Ready c \<longrightarrow>
          migrationPercent c = n
          \<and> Parse (getEnv e ''MOVIES_SERVICE_URL'' ''http://localhost:8081'') = Inr (movURL c)
          \<and> Parse (getEnv e ''MONOLITH_URL'' ''http://localhost:8080'') = Inr (monoURL c))
   \<and> (HasPrefix (Path r) ''/api/movies'' \<and> dispatched r \<and> gradualMigrationEnabled cfg
        \<and> 100 \<le> migrationPercent cfg \<longrightarrow>
      fst (gateway cfg r g) = Proxied MoviesService (movURL cfg))
   \<and> (HasPrefix (Path r) ''/api/movies'' \<and> dispatched r \<and> gradualMigrationEnabled cfg
        \<and> migrationPercent cfg \<le> 0 \<longrightarrow>
      fst (gateway cfg r g) = Proxied Monolith (monoURL cfg))
   \<and> (\<not> dispatched r \<longrightarrow> gateway cfg r g = (Redirected (cleanPath (Path r)), [], g))"
proof -
  have kept: "migrationPercent c = n
          \<and> Parse (getEnv e ''MOVIES_SERVICE_URL'' ''http://localhost:8081'') = Inr (movURL c)
          \<and> Parse (getEnv e ''MONOLITH_URL'' ''http://localhost:8080'') = Inr (monoURL c)"
    if "Atoi (getEnv e ''MOVIES_MIGRATION_PERCENT'' ''0'') = Inr n"
      "snd (main_setup Parse e) = Ready c" for n c
    using main_setup_Ready(1)[OF that(2)] parsePercent_ok[OF that(1)] main_setup_urls(1,2)[OF that(2)]
    by simp
  from kept movies_high_percent[of r cfg g] movies_low_percent[of r cfg g]
    gateway_redirect[of r cfg g]
  show ?thesis
    by blast
qed

theorem C10_percent_not_clamped_witness:
  "Atoi (getEnv high_percent_env ''MOVIES_MIGRATION_PERCENT'' ''0'') = Inr 250
   \<and> snd (main_setup demo_Parse high_percent_env) = Ready (demo_config True 250)
   \<and> migrationPercent (demo_config True 250) = 250
   \<and> HasPrefix (Path (get ''/api/movies'')) ''/api/movies''
   \<and> dispatched (get ''/api/movies'')
   \<and> gradualMigrationEnabled (demo_config True 250)
   \<and> fst (gateway (demo_config True 250) (get ''/api/movies'') (draws [99]))
       = Proxied MoviesService ''http://localhost:8081''
   \<and> snd (main_setup demo_Parse low_percent_env) = Ready (demo_config True (- 5))
   \<and> fst (gateway (demo_config True (- 5)) (get ''/api/movies'') (draws [0]))
       = Proxied Monolith ''http://localhost:8080''
   \<and> \<not> dispatched (get ''/api/movies/../events'')
   \<and> gateway (demo_config True 250) (get ''/api/movies/../events'') (draws [99])
       = (Redirected ''/api/events'', [], draws [99])"
proof -
  have a: "Atoi (getEnv high_percent_env ''MOVIES_MIGRATION_PERCENT'' ''0'') = Inr 250"
    by (simp add: high_percent_env_def getEnv_def Atoi_250)
  have p: "HasPrefix (Path (get ''/api/movies'')) ''/api/movies''"
    by (simp add: HasPrefix_def get_def)
  have d: "dispatched (get ''/api/movies'')" "\<not> dispatched (get ''/api/movies/../events'')"
    by (simp_all add: dispatched_get clean_movies clean_dot_dot)
  have q: "Path (get ''/api/movies/../events'') = ''/api/movies/../events''"
    by (simp add: get_def)
  show ?thesis
    using a p d setup_high_percent setup_low_percent
      C10_percent_not_clamped[of high_percent_env demo_Parse "get ''/api/movies''"
        "demo_config True 250" "draws [99]"]
      C10_percent_not_clamped[of low_percent_env demo_Parse "get ''/api/movies''"
        "demo_config True (- 5)" "draws [0]"]
      C10_percent_not_clamped[of high_percent_env demo_Parse "get ''/api/movies/../events''"
        "demo_config True 250" "draws [99]"]
    by (simp add: demo_config_def q clean_dot_dot)
qed

section \<open>Properties of the events service\<close>

subsection \<open>The branches of the handler\<close>

lemma endpoint_topics:
  "map_of endpoints p = Some topic \<Longrightarrow> topic \<in> set topics"
  by (auto simp: endpoints_def topics_def split: if_splits)

lemma newEventData_topics: "topic \<in> set topics \<Longrightarrow> \<exists>k. newEventData topic = Some k"
  by (auto simp: topics_def newEventData_def)

lemma mux_endpoint:
  "map_of endpoints (Path r) = Some topic \<Longrightarrow> events_mux J r w = handleEvent J topic r w"
  by (simp add: events_mux_def)

lemma handleEvent_not_post:
  "Method r \<noteq> ''POST'' \<Longrightarrow> handleEvent J topic r w = (http_Error ''Method not allowed'' 405, w)"
  by (simp add: handleEvent_def)


lemma handleEvent_write:
  assumes "Method r = ''POST''" "newEventData topic = Some k" "Decode J k (Body r) = Inr ev"
    "Marshal J ev = Inr eventBytes"
  shows "handleEvent J topic r w =
     (case answer (writer w) (length (calls (writer w))) of
        Some err \<Rightarrow>
          (http_Error ''Failed to write message to Kafka'' 500,
           w\<lparr>decoded := decoded w @ [Body r],
             writer := (writer w)\<lparr>calls := calls (writer w) @
                          [\<lparr>Topic = topic, Offset = 0, Key = [], Value = eventBytes\<rparr>]\<rparr>,
             logged := logged w @
               [Printf ''Failed to write message to Kafka: %v'' [Err (errorString err)]]\<rparr>)
      | None \<Rightarrow>
          (created,
           w\<lparr>decoded := decoded w @ [Body r],
             writer := (writer w)\<lparr>calls := calls (writer w) @
                          [\<lparr>Topic = topic, Offset = 0, Key = [], Value = eventBytes\<rparr>],
                        acked := acked (writer w) @
                          [\<lparr>Topic = topic, Offset = 0, Key = [], Value = eventBytes\<rparr>]\<rparr>,
             logged := logged w @
               [Printf ''Successfully produced message to topic %s: %s''
                  [Str topic, Str eventBytes]]\<rparr>))"
  using assms by (simp add: handleEvent_def Let_def WriteMessages_def split: option.splits)


subsection \<open>What the decoder rejects\<close>







lemma unmarshalMovie_empty_object: "unmarshalMovie eqf (JObject []) = Inr zeroMovie"
  by simp



subsection \<open>Claims about the producer endpoints\<close>


lemma demo_endpoint: "map_of endpoints (Path (post ''/api/events/movie'' b)) = Some movieTopic"
  by (simp add: endpoints_def post_def)

lemma demo_kind: "newEventData movieTopic = Some MovieKind"
  by (simp add: newEventData_def)

lemma Atoi_1: "Atoi ''1'' = Inr 1"
  by (simp add: Atoi_def isDigit_def digit_def maxUint64_def)

lemma Atoi_7: "Atoi ''7'' = Inr 7"
  by (simp add: Atoi_def isDigit_def digit_def maxUint64_def)

lemma demo_unmarshal: "unmarshalMovie eqf demo_value = Inr demo_movie"
  by (simp add: demo_value_def demo_movie_def zeroMovie_def findField_def movieFields_def
      setMovieField_def Atoi_1 Atoi_7)

lemma demo_decode: "Decode demo_json MovieKind demo_body = Inr (Movie demo_movie)"
  by (simp add: Decode_def demo_json_def demo_unmarshal)

lemma demo_decode_empty: "Decode demo_json MovieKind [] = Inl ''EOF''"
  by (simp add: Decode_def demo_json_def demo_body_def bad_body_def)

lemma demo_decode_object: "Decode demo_json MovieKind ''{}'' = Inr (Movie zeroMovie)"
  by (simp add: Decode_def demo_json_def demo_body_def bad_body_def)





lemma demo_marshal: "Marshal demo_json (Movie demo_movie) = Inr demo_body"
  by (simp add: demo_json_def)






text \<open>
  Claim C5. A POST to an event endpoint whose body decodes but whose write the broker
  fails is answered with 500. The writer was called exactly once, with the message for
  the endpoint's topic; nothing was acknowledged; the failure is logged; apart from that
  the world is as before: there is no second attempt and the event is kept nowhere.
\<close>

theorem C5_write_failure:
  assumes "map_of endpoints (Path r) = Some topic" "Method r = ''POST''"
    "newEventData topic = Some k" "Decode J k (Body r) = Inr ev"
    "Marshal J ev = Inr eventBytes" "answer (writer w) (length (calls (writer w))) = Some err"
  shows "fst (events_mux J r w) = http_Error ''Failed to write message to Kafka'' 500
       \<and> StatusCode (fst (events_mux J r w)) = 500
       \<and> calls (writer (snd (events_mux J r w))) =
           calls (writer w) @ [\<lparr>Topic = topic, Offset = 0, Key = [], Value = eventBytes\<rparr>]
       \<and> acked (writer (snd (events_mux J r w))) = acked (writer w)
       \<and> answer (writer (snd (events_mux J r w))) = answer (writer w)
       \<and> logged (snd (events_mux J r w)) =
           logged w @ [Printf ''Failed to write message to Kafka: %v'' [Err (errorString err)]]
       \<and> decoded (snd (events_mux J r w)) = decoded w @ [Body r]"
  using handleEvent_write[OF assms(2-5), of w] mux_endpoint[OF assms(1), of J w] assms(6)
  by (simp add: http_Error_def)

theorem C5_write_failure_witness:
  "map_of endpoints (Path (post ''/api/events/movie'' demo_body)) = Some movieTopic
   \<and> Method (post ''/api/events/movie'' demo_body) = ''POST''
   \<and> Decode demo_json MovieKind (Body (post ''/api/events/movie'' demo_body)) = Inr (Movie demo_movie)
   \<and> Marshal demo_json (Movie demo_movie) = Inr demo_body
   \<and> answer (writer (demo_world (Some ''broker unreachable'')))
        (length (calls (writer (demo_world (Some ''broker unreachable''))))) = Some ''broker unreachable''
   \<and> StatusCode (fst (events_mux demo_json (post ''/api/events/movie'' demo_body)
        (demo_world (Some ''broker unreachable'')))) = 500
   \<and> length (calls (writer (snd (events_mux demo_json (post ''/api/events/movie'' demo_body)
        (demo_world (Some ''broker unreachable'')))))) = 1
   \<and> acked (writer (snd (events_mux demo_json (post ''/api/events/movie'' demo_body)
        (demo_world (Some ''broker unreachable''))))) = []"
proof -
  have m: "Method (post ''/api/events/movie'' demo_body) = ''POST''"
    and d: "Decode demo_json MovieKind (Body (post ''/api/events/movie'' demo_body))
              = Inr (Movie demo_movie)"
    and a: "answer (writer (demo_world (Some ''broker unreachable'')))
        (length (calls (writer (demo_world (Some ''broker unreachable''))))) = Some ''broker unreachable''"
    by (simp_all add: post_def demo_decode demo_world_def)
  show ?thesis
    using m d a demo_endpoint[of demo_body] demo_marshal
      C5_write_failure[OF demo_endpoint m demo_kind d demo_marshal a]
    by (simp add: demo_world_def http_Error_def)
qed

text \<open>
  Claim C6. A request to one of the three event endpoints with a method other than POST
  is answered with 405 and leaves the world as it was, whatever the JSON library would
  do with the body: the body is not decoded, the writer is not called, nothing is logged.
\<close>

theorem C6_method_not_allowed:
  assumes "Path r \<in> {''/api/events/movie'', ''/api/events/user'', ''/api/events/payment''}"
    "Method r \<noteq> ''POST''"
  shows "events_mux J r w = (http_Error ''Method not allowed'' 405, w)
       \<and> StatusCode (fst (events_mux J r w)) = 405
       \<and> decoded (snd (events_mux J r w)) = decoded w
       \<and> writer (snd (events_mux J r w)) = writer w"
proof -
  from assms(1) obtain topic where "map_of endpoints (Path r) = Some topic"
    by (auto simp: endpoints_def)
  then have "events_mux J r w = handleEvent J topic r w"
    by (rule mux_endpoint)
  with handleEvent_not_post[OF assms(2), of J topic w] show ?thesis
    by (simp add: http_Error_def)
qed

theorem C6_method_not_allowed_witness:
  "Path (get ''/api/events/payment'') \<in> {''/api/events/movie'', ''/api/events/user'', ''/api/events/payment''}
   \<and> Method (get ''/api/events/payment'') \<noteq> ''POST''
   \<and> events_mux demo_json (get ''/api/events/payment'') (demo_world None)
       = (http_Error ''Method not allowed'' 405, demo_world None)"
proof -
  have p: "Path (get ''/api/events/payment'')
             \<in> {''/api/events/movie'', ''/api/events/user'', ''/api/events/payment''}"
    and m: "Method (get ''/api/events/payment'') \<noteq> ''POST''"
    by (simp_all add: get_def)
  show ?thesis
    using p m C6_method_not_allowed[OF p m, of demo_json "demo_world None"]
    by simp
qed


section \<open>Properties of the process\<close>

subsection \<open>The wait group counts the consumers that have not returned\<close>

lemma main_start_state:
  "consumers (main_start e broker) = (\<lambda>t. if t \<in> set topics then Spawned else Absent)"
  "wg (main_start e broker) = 3"
  "mainG (main_start e broker) = Serving"
  "responses (main_start e broker) = []"
  "writer (io (main_start e broker)) = \<lparr>answer = broker, calls = [], acked = []\<rparr>"
  by (auto simp: main_start_def Let_def topics_def spawn_def fun_eq_iff)

lemma wg_ok_start: "wg_ok (main_start e broker)"
  unfolding wg_ok_def alive_def
  by (simp add: main_start_state) (simp add: topics_def)

lemma alive_returned:
  assumes "t \<in> set topics" "c t \<noteq> Returned"
  shows "alive (c(t := Returned)) = alive c - 1" and "0 < alive c"
  using assms unfolding alive_def topics_def
  by (auto simp: movieTopic_def userTopic_def paymentTopic_def)

lemma alive_reading:
  assumes "c t = Spawned"
  shows "alive (c(t := Reading)) = alive c"
  unfolding alive_def using assms
  by (intro arg_cong[where f=length] filter_cong) auto

lemma wg_ok_step: "wg_ok p \<Longrightarrow> wg_ok (step J p ev)"
proof (cases ev)
  case (ListenReturns err)
  assume "wg_ok p"
  then show ?thesis using ListenReturns
    by (auto simp: wg_ok_def log_line_def wait_def split: option.splits)
next
  case (Start t)
  assume "wg_ok p"
  then show ?thesis using Start
    by (auto simp: wg_ok_def log_line_def alive_reading)
next
  case (Read t res)
  assume ok: "wg_ok p"
  show ?thesis
  proof (cases "(mainG p = Serving \<or> mainG p = Waiting) \<and> consumers p t = Reading")
    case False
    then show ?thesis using ok Read by auto
  next
    case True
    then have t: "t \<in> set topics" using ok by (auto simp: wg_ok_def)
    show ?thesis
    proof (cases res)
      case (Inr m)
      then have "step J p ev = log_line p (fst (consume_iteration t res))"
        using True Read by (simp add: consume_iteration_def)
      then show ?thesis using ok by (simp add: wg_ok_def log_line_def)
    next
      case (Inl err)
      have s: "step J p ev = consume_return (log_line p (fst (consume_iteration t res))) t"
        using True Read Inl by (simp add: consume_iteration_def)
      have lv: "alive ((consumers p)(t := Returned)) = alive (consumers p) - 1"
        "0 < alive (consumers p)"
        using alive_returned[OF t, of "consumers p"] True by simp_all
      show ?thesis unfolding s using ok True lv
        by (auto simp: wg_ok_def consume_return_def Let_def wait_def log_line_def)
    qed
  qed
next
  case (Request r)
  assume "wg_ok p"
  then show ?thesis using Request
    by (auto simp: wg_ok_def split: prod.splits)
qed

lemma run_Nil: "run J p [] = p"
  by (simp add: run_def)

lemma run_Cons: "run J p (ev # evs) = run J (step J p ev) evs"
  by (simp add: run_def)

lemma run_snoc: "run J p (evs @ [ev]) = step J (run J p evs) ev"
  by (simp add: run_def)

lemma wg_ok_run: "wg_ok p \<Longrightarrow> wg_ok (run J p evs)"
  by (induction evs arbitrary: p) (simp_all add: run_Nil run_Cons wg_ok_step)


subsection \<open>What one event does\<close>

lemma step_Exited: "mainG p = Exited c \<Longrightarrow> step J p ev = p"
  by (cases ev) auto

lemma returned_step: "consumers p t = Returned \<Longrightarrow> consumers (step J p ev) t = Returned"
  by (cases ev)
    (auto simp: log_line_def consume_return_def wait_def Let_def split: option.splits prod.splits)

lemma returned_run: "consumers p t = Returned \<Longrightarrow> consumers (run J p evs) t = Returned"
  by (induction evs arbitrary: p) (simp_all add: run_Nil run_Cons returned_step)

lemma step_read_returned: "consumers p t = Returned \<Longrightarrow> step J p (Read t res) = p"
  by simp

lemma step_request:
  "mainG p = Serving \<Longrightarrow>
   step J p (Request r) =
     p\<lparr>io := snd (events_mux J r (io p)), responses := responses p @ [fst (events_mux J r (io p))]\<rparr>"
  by (simp split: prod.splits)

lemma step_read_message:
  "mainG p = Serving \<Longrightarrow> consumers p t = Reading \<Longrightarrow>
   step J p (Read t (Inr m)) = log_line p (fst (consume_iteration t (Inr m)))"
  by (simp add: consume_iteration_def)

lemma step_read_error:
  assumes "wg_ok p" "mainG p = Serving" "consumers p t = Reading"
  shows "step J p (Read t (Inl err)) =
     p\<lparr>io := (io p)\<lparr>logged := logged (io p) @
            [Printf ''Error reading message from topic %s: %v'' [Str t, Err (errorString err)]]\<rparr>,
       consumers := (consumers p)(t := Returned), wg := wg p - 1\<rparr>"
proof -
  from assms have t: "t \<in> set topics" by (auto simp: wg_ok_def)
  have "0 < alive (consumers p)"
    using alive_returned(2)[OF t, of "consumers p"] assms(3) by simp
  then have "\<not> wg p - 1 < 0" using assms(1) by (simp add: wg_ok_def)
  then show ?thesis using assms(2,3)
    by (simp add: consume_iteration_def consume_return_def log_line_def Let_def)
qed

lemma step_mainG_Serving:
  assumes "wg_ok p" "mainG p = Serving" "ev \<noteq> ListenReturns None"
  shows "mainG (step J p ev) =
           (if \<exists>err. ev = ListenReturns (Some err) then Exited 1 else Serving)"
proof (cases ev)
  case (ListenReturns x)
  then show ?thesis using assms by (cases x) (auto simp: log_line_def)
next
  case (Start t)
  then show ?thesis using assms by (auto simp: log_line_def)
next
  case (Read t res)
  show ?thesis
  proof (cases "consumers p t = Reading")
    case True
    then show ?thesis
      using Read assms step_read_error[OF assms(1,2) True, of J] step_read_message[OF assms(2) True, of J]
      by (cases res) (simp_all add: log_line_def)
  next
    case False
    then show ?thesis using Read assms by simp
  qed
next
  case (Request r)
  then show ?thesis using assms by (auto split: prod.splits)
qed

lemma main_run:
  assumes "wg_ok p" "mainG p = Serving" "errors_only evs"
  shows "mainG (run J p evs) =
           (if \<exists>err. ListenReturns (Some err) \<in> set evs then Exited 1 else Serving)"
  using assms(3)
proof (induction evs rule: rev_induct)
  case Nil
  then show ?case using assms(2) by (simp add: run_Nil)
next
  case (snoc ev evs)
  then have eo: "errors_only evs" and ev: "ev \<noteq> ListenReturns None"
    by (auto simp: errors_only_def)
  note IH = snoc.IH[OF eo]
  have ok: "wg_ok (run J p evs)" by (rule wg_ok_run[OF assms(1)])
  show ?case
  proof (cases "\<exists>err. ListenReturns (Some err) \<in> set evs")
    case True
    then have "mainG (run J p evs) = Exited 1" using IH by simp
    then have "run J p (evs @ [ev]) = run J p evs"
      by (simp add: run_snoc step_Exited)
    then show ?thesis using IH True by auto
  next
    case False
    then have "mainG (run J p evs) = Serving" using IH by simp
    from step_mainG_Serving[OF ok this ev, of J] False show ?thesis
      by (auto simp: run_snoc)
  qed
qed

subsection \<open>The events of one consumer are the loop of \<open>consume\<close>\<close>

lemma consume_loop_error:
  "consume_loop topic (map Inr ms @ Inl err # rest) =
     (map (\<lambda>m. fst (consume_iteration topic (Inr m))) ms
        @ [Printf ''Error reading message from topic %s: %v'' [Str topic, Err (errorString err)]],
      True)"
  by (induction ms) (simp_all add: consume_iteration_def)

lemma consume_loop_messages:
  "consume_loop topic (map Inr ms) =
     (map (\<lambda>m. fst (consume_iteration topic (Inr m))) ms, False)"
  by (induction ms) (simp_all add: consume_iteration_def)

lemma run_reads:
  assumes "wg_ok p" "mainG p = Serving" "consumers p t = Reading"
  shows "logged (io (run J p (map (Read t) results))) = logged (io p) @ fst (consume_loop t results)
       \<and> consumers (run J p (map (Read t) results)) t
           = (if snd (consume_loop t results) then Returned else Reading)
       \<and> mainG (run J p (map (Read t) results)) = Serving"
  using assms
proof (induction results arbitrary: p)
  case Nil
  then show ?case by (simp add: run_Nil)
next
  case (Cons res results)
  show ?case
  proof (cases res)
    case (Inr m)
    let ?q = "log_line p (fst (consume_iteration t (Inr m)))"
    have s: "step J p (Read t res) = ?q"
      unfolding Inr by (rule step_read_message[OF Cons.prems(2,3)])
    have "wg_ok ?q" using wg_ok_step[OF Cons.prems(1), of J "Read t res"] s by simp
    moreover have "mainG ?q = Serving" "consumers ?q t = Reading"
      using Cons.prems by (simp_all add: log_line_def)
    ultimately show ?thesis
      using Cons.IH[of ?q] s Inr
      by (simp add: run_Cons log_line_def consume_iteration_def split: prod.splits del: step.simps)
  next
    case (Inl err)
    have s: "step J p (Read t res) =
       p\<lparr>io := (io p)\<lparr>logged := logged (io p) @
            [Printf ''Error reading message from topic %s: %v'' [Str t, Err (errorString err)]]\<rparr>,
         consumers := (consumers p)(t := Returned), wg := wg p - 1\<rparr>"
      unfolding Inl by (rule step_read_error[OF Cons.prems])
    have r: "consumers (step J p (Read t res)) t = Returned" by (simp only: s) simp
    have frozen: "run J q (map (Read t) rs) = q" if "consumers q t = Returned" for q rs
      using that by (induction rs) (simp_all add: run_Nil run_Cons)
    show ?thesis
      using Inl Cons.prems(2) frozen[OF r, of results]
      by (simp add: run_Cons s[unfolded Inl] consume_iteration_def del: step.simps)
  qed
qed

lemma run_consume:
  assumes "wg_ok p" "mainG p = Serving" "consumers p t = Spawned"
  shows "logged (io (run J p (Start t # map (Read t) results)))
           = logged (io p) @ fst (consume t results)
       \<and> consumers (run J p (Start t # map (Read t) results)) t
           = (if snd (consume t results) then Returned else Reading)
       \<and> mainG (run J p (Start t # map (Read t) results)) = Serving"
proof -
  let ?q = "(log_line p (Printf ''Consumer started for topic %s'' [Str t]))
              \<lparr>consumers := (consumers p)(t := Reading)\<rparr>"
  have s: "step J p (Start t) = ?q" using assms(2,3) by simp
  have "wg_ok ?q" using wg_ok_step[OF assms(1), of J "Start t"] s by simp
  moreover have "mainG ?q = Serving" "consumers ?q t = Reading"
    using assms(2) by (simp_all add: log_line_def)
  ultimately show ?thesis
    using run_reads[of ?q t J results] s
    by (simp add: run_Cons consume_def log_line_def split: prod.splits del: step.simps)
qed

subsection \<open>Claims about the consumer loops and \<open>main\<close>\<close>

lemma topic_neq [simp]:
  "movieTopic \<noteq> userTopic" "movieTopic \<noteq> paymentTopic" "userTopic \<noteq> paymentTopic"
  "userTopic \<noteq> movieTopic" "paymentTopic \<noteq> movieTopic" "paymentTopic \<noteq> userTopic"
  by (simp_all add: movieTopic_def userTopic_def paymentTopic_def)

lemma demo_started_state:
  "mainG demo_started = Serving"
  "consumers demo_started movieTopic = Reading"
  "consumers demo_started userTopic = Reading"
  "consumers demo_started paymentTopic = Reading"
  "wg demo_started = 3"
  "responses demo_started = []"
  "writer (io demo_started) = \<lparr>answer = (\<lambda>n. None), calls = [], acked = []\<rparr>"
  by (simp_all add: demo_started_def demo_start_def run_def main_start_state log_line_def topics_def)

text \<open>
  Claim C7. In a process that \<open>main\<close> has started and whose HTTP server is serving, a
  read error in the consumer loop of a topic ends that loop and nothing else: the
  consumer logs the error and returns, it never reads again whatever happens later
  (there is no reconnection), the other consumers are as they were and go on logging the
  messages they read, the server goes on answering requests, and the process has not
  ended. The goroutines are interleaved as events of the process.
\<close>

theorem C7_read_error_stops_one_loop:
  assumes "p = run J (main_start e broker) evs" "mainG p = Serving" "consumers p t = Reading"
    and "p' = step J p (Read t (Inl err))"
  shows "t \<in> set topics
       \<and> consumers p' t = Returned
       \<and> (\<forall>evs'. consumers (run J p' evs') t = Returned)
       \<and> (\<forall>q res. consumers q t = Returned \<longrightarrow> step J q (Read t res) = q)
       \<and> (\<forall>t'. t' \<noteq> t \<longrightarrow> consumers p' t' = consumers p t')
       \<and> mainG p' = Serving
       \<and> wg p' = wg p - 1
       \<and> io p' = (io p)\<lparr>logged := logged (io p) @
            [Printf ''Error reading message from topic %s: %v'' [Str t, Err (errorString err)]]\<rparr>
       \<and> responses p' = responses p
       \<and> (\<forall>r. step J p' (Request r) =
             p'\<lparr>io := snd (events_mux J r (io p')),
                responses := responses p' @ [fst (events_mux J r (io p'))]\<rparr>)
       \<and> (\<forall>t' m. t' \<noteq> t \<and> consumers p t' = Reading \<longrightarrow>
             step J p' (Read t' (Inr m)) = log_line p' (fst (consume_iteration t' (Inr m))))"
proof -
  have ok: "wg_ok p"
    unfolding assms(1) by (rule wg_ok_run[OF wg_ok_start])
  then have t: "t \<in> set topics" using assms(3) by (auto simp: wg_ok_def)
  have p': "p' = p\<lparr>io := (io p)\<lparr>logged := logged (io p) @
            [Printf ''Error reading message from topic %s: %v'' [Str t, Err (errorString err)]]\<rparr>,
       consumers := (consumers p)(t := Returned), wg := wg p - 1\<rparr>"
    unfolding assms(4) by (rule step_read_error[OF ok assms(2,3)])
  have ret: "consumers p' t = Returned" and srv: "mainG p' = Serving"
    using assms(2) by (simp_all add: p')
  have others: "consumers p' t' = consumers p t'" if "t' \<noteq> t" for t'
    using that by (simp add: p')
  have fields: "wg p' = wg p - 1" "responses p' = responses p"
    "io p' = (io p)\<lparr>logged := logged (io p) @
            [Printf ''Error reading message from topic %s: %v'' [Str t, Err (errorString err)]]\<rparr>"
    by (simp_all add: p')
  have reads: "step J p' (Read t' (Inr m)) = log_line p' (fst (consume_iteration t' (Inr m)))"
    if "t' \<noteq> t" "consumers p t' = Reading" for t' m
    using step_read_message[OF srv, of t' J m] others[OF that(1)] that(2) by simp
  show ?thesis
    using t ret returned_run[OF ret, of J] step_read_returned[of _ t J] others srv fields
      step_request[OF srv, of J] reads
    by simp
qed

theorem C7_read_error_stops_one_loop_witness:
  "demo_started = run demo_json (main_start (\<lambda>k. None) (\<lambda>n. None))
       [Start movieTopic, Start userTopic, Start paymentTopic]
   \<and> mainG demo_started = Serving
   \<and> consumers demo_started userTopic = Reading
   \<and> consumers (step demo_json demo_started (Read userTopic (Inl ''EOF''))) userTopic = Returned
   \<and> consumers (step demo_json demo_started (Read userTopic (Inl ''EOF''))) movieTopic = Reading
   \<and> consumers (step demo_json demo_started (Read userTopic (Inl ''EOF''))) paymentTopic = Reading
   \<and> mainG (step demo_json demo_started (Read userTopic (Inl ''EOF''))) = Serving
   \<and> wg (step demo_json demo_started (Read userTopic (Inl ''EOF''))) = 2
   \<and> responses (step demo_json (step demo_json demo_started (Read userTopic (Inl ''EOF'')))
        (Request (post ''/api/events/movie'' demo_body))) = [created]"
proof -
  have r: "demo_started = run demo_json (main_start (\<lambda>k. None) (\<lambda>n. None))
       [Start movieTopic, Start userTopic, Start paymentTopic]"
    by (simp add: demo_started_def demo_start_def)
  have mux: "fst (events_mux demo_json (post ''/api/events/movie'' demo_body) w) = created"
    if "answer (writer w) (length (calls (writer w))) = None" for w
  proof -
    have "Method (post ''/api/events/movie'' demo_body) = ''POST''"
      "Decode demo_json MovieKind (Body (post ''/api/events/movie'' demo_body))
         = Inr (Movie demo_movie)"
      by (simp_all add: post_def demo_decode)
    from handleEvent_write[OF this(1) demo_kind this(2) demo_marshal, of w]
      mux_endpoint[OF demo_endpoint, of demo_json demo_body w] that
    show ?thesis by simp
  qed
  show ?thesis
    using r demo_started_state(1,3)
      C7_read_error_stops_one_loop[OF r demo_started_state(1,3) refl, of "''EOF''"]
    by (simp add: demo_started_state mux del: step.simps)
qed

text \<open>
  Claim C8, as stated, fails when \<open>http.ListenAndServe\<close> returns: its error goes to
  \<open>log.Fatalf\<close>, and the process ends with code 1 while all three consumer loops are
  still reading.
\<close>

theorem C8_exit_before_consumers:
  "mainG (step demo_json demo_started (ListenReturns (Some ''bind: address already in use''))) = Exited 1
   \<and> consumers (step demo_json demo_started (ListenReturns (Some ''bind: address already in use''))) movieTopic = Reading
   \<and> consumers (step demo_json demo_started (ListenReturns (Some ''bind: address already in use''))) userTopic = Reading
   \<and> consumers (step demo_json demo_started (ListenReturns (Some ''bind: address already in use''))) paymentTopic = Reading"
  by (simp add: demo_started_state log_line_def)

text \<open>
  Claim C8, amended. \<open>main\<close> spawns the three consumer loops before it enters the HTTP
  server, and they run concurrently with it: while \<open>main\<close> is inside the server, requests
  are answered and the consumers log what they read, in any order. \<open>main\<close> stays inside
  the server until the server returns an error; then the process ends at once with code
  1, whatever the consumer loops are doing. (The server never returns \<open>nil\<close>.)
\<close>

theorem C8_main_blocks_in_server:
  assumes "p = run J (main_start e broker) evs" "errors_only evs"
  shows "(\<forall>t \<in> set topics. consumers (main_start e broker) t = Spawned)
       \<and> mainG (main_start e broker) = Serving
       \<and> (\<forall>t \<in> set topics. consumers p t \<noteq> Absent)
       \<and> (mainG p = Exited 1 \<longleftrightarrow> (\<exists>err. ListenReturns (Some err) \<in> set evs))
       \<and> (mainG p = Serving \<longleftrightarrow> \<not> (\<exists>err. ListenReturns (Some err) \<in> set evs))
       \<and> (mainG p = Serving \<longrightarrow>
            (\<forall>r. responses (step J p (Request r)) =
                   responses p @ [fst (events_mux J r (io p))])
            \<and> (\<forall>t m. consumers p t = Reading \<longrightarrow>
                   step J p (Read t (Inr m)) = log_line p (fst (consume_iteration t (Inr m))))
            \<and> (\<forall>err. mainG (step J p (ListenReturns (Some err))) = Exited 1
                   \<and> consumers (step J p (ListenReturns (Some err))) = consumers p))"
proof -
  have ok: "wg_ok p"
    unfolding assms(1) by (rule wg_ok_run[OF wg_ok_start])
  have m: "mainG p = (if \<exists>err. ListenReturns (Some err) \<in> set evs then Exited 1 else Serving)"
    unfolding assms(1)
    by (rule main_run[OF wg_ok_start main_start_state(3) assms(2)])
  have spawned: "\<forall>t \<in> set topics. consumers (main_start e broker) t = Spawned"
    by (simp add: main_start_state)
  have present: "\<forall>t \<in> set topics. consumers p t \<noteq> Absent"
    using ok by (simp add: wg_ok_def)
  have serving: "(\<forall>r. responses (step J p (Request r)) =
                   responses p @ [fst (events_mux J r (io p))])
            \<and> (\<forall>t m. consumers p t = Reading \<longrightarrow>
                   step J p (Read t (Inr m)) = log_line p (fst (consume_iteration t (Inr m))))
            \<and> (\<forall>err. mainG (step J p (ListenReturns (Some err))) = Exited 1
                   \<and> consumers (step J p (ListenReturns (Some err))) = consumers p)"
    if "mainG p = Serving"
    using that step_request[OF that, of J] step_read_message[OF that, of _ J]
    by (simp add: log_line_def del: step.simps(3,4))
  from spawned main_start_state(3)[of e broker] present m serving show ?thesis
    by (simp split: if_splits)
qed

theorem C8_main_blocks_in_server_witness:
  "demo_started = run demo_json (main_start (\<lambda>k. None) (\<lambda>n. None))
       [Start movieTopic, Start userTopic, Start paymentTopic]
   \<and> errors_only [Start movieTopic, Start userTopic, Start paymentTopic]
   \<and> consumers (main_start (\<lambda>k. None) (\<lambda>n. None)) userTopic = Spawned
   \<and> mainG demo_started = Serving
   \<and> consumers demo_started userTopic \<noteq> Absent
   \<and> mainG (step demo_json demo_started (ListenReturns (Some ''bind: address already in use'')))
       = Exited 1"
proof -
  have r: "demo_started = run demo_json (main_start (\<lambda>k. None) (\<lambda>n. None))
       [Start movieTopic, Start userTopic, Start paymentTopic]"
    by (simp add: demo_started_def demo_start_def)
  have eo: "errors_only [Start movieTopic, Start userTopic, Start paymentTopic]"
    by (simp add: errors_only_def)
  show ?thesis
    using r eo C8_main_blocks_in_server[OF r eo]
    by (simp add: topics_def del: step.simps)
qed

end
